theory Spec2Isabelle
  imports Complex_Main
begin

section \<open>Plate and socket generator: data model\<close>

text \<open>
  The TypeScript type \<^verbatim>\<open>number\<close> is modelled by \<^typ>\<open>real\<close>: every arithmetic
  operation is exact. Rounding of IEEE doubles, infinities and NaN are outside this model;
  the constants 3.5, 0.2, 6.4 ... denote the decimal fractions themselves. The validator
  is embedded a second time over binary64 values, with rounding, infinities and NaN (the
  definitions with the suffix 64); the properties that depend on them are stated there.
  Strings that serve as identifiers are \<^typ>\<open>string\<close>.

  Several interfaces of the source share field names (\<^verbatim>\<open>id\<close>, \<^verbatim>\<open>width\<close>,
  \<^verbatim>\<open>positionX\<close> ...); the fields keep their names and are written qualified
  (\<open>Plate.width\<close>, \<open>SocketGroup.id\<close>) where needed.
\<close>

datatype Direction = horizontal | vertical

record Plate =
  id :: string
  width :: real
  height :: real

record SocketGroup =
  id :: string
  plateId :: string
  count :: real
  direction :: Direction
  positionX :: real
  positionY :: real

text \<open>The anonymous result type \<^verbatim>\<open>{ width: number; height: number }\<close>.\<close>

record Dimensions =
  width :: real
  height :: real

text \<open>
  The \<^verbatim>\<open>error\<close> field of the source is a formatted German sentence. It is modelled
  by the kind of the sentence together with the numbers interpolated into it, in the order
  in which they appear (before \<^verbatim>\<open>toFixed(1)\<close> renders them):
  \<^item> left edge: minimal allowed anchor X, plate width, group width;
  \<^item> bottom edge: minimal allowed anchor Y, plate height, group height;
  \<^item> right edge: maximal allowed anchor X, plate width, group width;
  \<^item> top edge: maximal allowed anchor Y, plate height, group height;
  \<^item> group distance: the distance that was computed.
  The last constructor is the fallback text \<^verbatim>\<open>"Cannot place socket here"\<close> of the
  drag handler.
\<close>

datatype ErrorMessage =
    LeftEdgeError real real real
  | BottomEdgeError real real real
  | RightEdgeError real real real
  | TopEdgeError real real real
  | GroupDistanceError real
  | CannotPlaceSocketHere

record ValidatedPosition =
  valid :: bool
  error :: "ErrorMessage option"
  positionX :: real
  positionY :: real

subsection \<open>Constants\<close>

definition SOCKET_SIZE :: real where
  "SOCKET_SIZE = 7"

definition SOCKET_GAP :: real where
  "SOCKET_GAP = 0.2"

definition MIN_EDGE_DISTANCE :: real where
  "MIN_EDGE_DISTANCE = 3"

definition MIN_GROUP_DISTANCE :: real where
  "MIN_GROUP_DISTANCE = 4"

definition MIN_PLATE_SIZE_FOR_SOCKETS :: real where
  "MIN_PLATE_SIZE_FOR_SOCKETS = 40"

text \<open>
  \<^verbatim>\<open>ANCHOR_OFFSET_CM\<close> is a local constant with the same value 3.5 in the validator, in
  both \<^verbatim>\<open>getSocketGroupPosition\<close> functions and in the drag handler.
\<close>

definition ANCHOR_OFFSET_CM :: real where
  "ANCHOR_OFFSET_CM = 3.5"

section \<open>Socket group dimensions\<close>

definition calculateSocketGroupDimensions :: "real \<Rightarrow> Direction \<Rightarrow> Dimensions" where
  "calculateSocketGroupDimensions cnt dir =
     (let totalSocketSpace = cnt * SOCKET_SIZE;
          gaps = (cnt - 1) * SOCKET_GAP;
          totalDimension = totalSocketSpace + gaps
      in if dir = horizontal
         then \<lparr>Dimensions.width = totalDimension, Dimensions.height = SOCKET_SIZE\<rparr>
         else \<lparr>Dimensions.width = SOCKET_SIZE, Dimensions.height = totalDimension\<rparr>)"

definition isPlateLargeEnoughForSockets :: "Plate \<Rightarrow> bool" where
  "isPlateLargeEnoughForSockets plate \<longleftrightarrow>
     Plate.width plate \<ge> MIN_PLATE_SIZE_FOR_SOCKETS \<and>
     Plate.height plate \<ge> MIN_PLATE_SIZE_FOR_SOCKETS"

section \<open>Position validation\<close>

text \<open>
  The distance of two axis-aligned rectangles, as the body of the loop over the sibling
  groups computes it from the eight edges \<open>r1Left\<close> ... \<open>r2Top\<close>.
\<close>

definition rectDistance ::
  "real \<Rightarrow> real \<Rightarrow> real \<Rightarrow> real \<Rightarrow> real \<Rightarrow> real \<Rightarrow> real \<Rightarrow> real \<Rightarrow> real" where
  "rectDistance r1Left r1Right r1Bottom r1Top r2Left r2Right r2Bottom r2Top =
     (let hDistance = (if r1Right < r2Left then r2Left - r1Right
                       else if r2Right < r1Left then r1Left - r2Right
                       else 0);
          vDistance = (if r1Bottom > r2Top then r1Bottom - r2Top
                       else if r2Bottom > r1Top then r2Bottom - r1Top
                       else 0)
      in sqrt (hDistance * hDistance + vDistance * vDistance))"

text \<open>
  One iteration's \<open>totalDistance\<close>: the candidate's rectangle (from the candidate anchor
  and the dimensions of the validated group) against the rectangle of \<open>other\<close>.
\<close>

definition totalDistance :: "real \<Rightarrow> real \<Rightarrow> real \<Rightarrow> real \<Rightarrow> SocketGroup \<Rightarrow> real" where
  "totalDistance posX posY groupWidth groupHeight other =
     (let otherDims = calculateSocketGroupDimensions (count other) (direction other);
          otherWidth = Dimensions.width otherDims;
          otherHeight = Dimensions.height otherDims;
          r1Left = posX - ANCHOR_OFFSET_CM;
          r1Right = r1Left + groupWidth;
          r1Bottom = posY - ANCHOR_OFFSET_CM;
          r1Top = r1Bottom + groupHeight;
          r2Left = SocketGroup.positionX other - ANCHOR_OFFSET_CM;
          r2Right = r2Left + otherWidth;
          r2Bottom = SocketGroup.positionY other - ANCHOR_OFFSET_CM;
          r2Top = r2Bottom + otherHeight
      in rectDistance r1Left r1Right r1Bottom r1Top r2Left r2Right r2Bottom r2Top)"

text \<open>
  The \<^verbatim>\<open>for (const other of allSocketGroups)\<close> loop with its \<^verbatim>\<open>continue\<close> and its
  early \<^verbatim>\<open>return\<close>; the empty list is the fall-through to the final
  \<^verbatim>\<open>return { valid: true, positionX, positionY }\<close>.
\<close>

fun checkOtherGroups ::
  "SocketGroup \<Rightarrow> real \<Rightarrow> real \<Rightarrow> real \<Rightarrow> real \<Rightarrow> SocketGroup list \<Rightarrow> ValidatedPosition" where
  "checkOtherGroups socketGroup posX posY groupWidth groupHeight [] =
     \<lparr>valid = True, error = None, positionX = posX, positionY = posY\<rparr>"
| "checkOtherGroups socketGroup posX posY groupWidth groupHeight (other # rest) =
     (if SocketGroup.id other = SocketGroup.id socketGroup
         \<or> plateId other \<noteq> plateId socketGroup
      then checkOtherGroups socketGroup posX posY groupWidth groupHeight rest
      else if totalDistance posX posY groupWidth groupHeight other < MIN_GROUP_DISTANCE
      then \<lparr>valid = False,
            error = Some (GroupDistanceError (totalDistance posX posY groupWidth groupHeight other)),
            positionX = posX, positionY = posY\<rparr>
      else checkOtherGroups socketGroup posX posY groupWidth groupHeight rest)"

definition validateSocketPosition ::
  "SocketGroup \<Rightarrow> real \<Rightarrow> real \<Rightarrow> Plate \<Rightarrow> SocketGroup list \<Rightarrow> ValidatedPosition" where
  "validateSocketPosition socketGroup posX posY plate allSocketGroups =
     (let dims = calculateSocketGroupDimensions (count socketGroup) (direction socketGroup);
          groupWidth = Dimensions.width dims;
          groupHeight = Dimensions.height dims;
          groupLeftX = posX - ANCHOR_OFFSET_CM;
          groupBottomY = posY - ANCHOR_OFFSET_CM;
          groupRightX = groupLeftX + groupWidth;
          groupTopY = groupBottomY + groupHeight
      in if groupLeftX < MIN_EDGE_DISTANCE
         then \<lparr>valid = False,
               error = Some (LeftEdgeError (MIN_EDGE_DISTANCE + ANCHOR_OFFSET_CM)
                               (Plate.width plate) groupWidth),
               positionX = posX, positionY = posY\<rparr>
         else if groupBottomY < MIN_EDGE_DISTANCE
         then \<lparr>valid = False,
               error = Some (BottomEdgeError (MIN_EDGE_DISTANCE + ANCHOR_OFFSET_CM)
                               (Plate.height plate) groupHeight),
               positionX = posX, positionY = posY\<rparr>
         else if groupRightX > Plate.width plate - MIN_EDGE_DISTANCE
         then \<lparr>valid = False,
               error = Some (RightEdgeError
                               (Plate.width plate - MIN_EDGE_DISTANCE - groupWidth + ANCHOR_OFFSET_CM)
                               (Plate.width plate) groupWidth),
               positionX = posX, positionY = posY\<rparr>
         else if groupTopY > Plate.height plate - MIN_EDGE_DISTANCE
         then \<lparr>valid = False,
               error = Some (TopEdgeError
                               (Plate.height plate - MIN_EDGE_DISTANCE - groupHeight + ANCHOR_OFFSET_CM)
                               (Plate.height plate) groupHeight),
               positionX = posX, positionY = posY\<rparr>
         else checkOtherGroups socketGroup posX posY groupWidth groupHeight allSocketGroups)"

section \<open>Rendering position of a socket group\<close>

text \<open>
  A JavaScript object \<^verbatim>\<open>{ x, y }\<close> is a pair. The dictionary \<^verbatim>\<open>plateScales\<close> is a
  map from plate ids to scales, and \<^verbatim>\<open>plateScales[k] || 0\<close> reads it with 0 for a
  missing key.
\<close>

definition scaleOf :: "(string \<rightharpoonup> real) \<Rightarrow> string \<Rightarrow> real" where
  "scaleOf scales k = (case scales k of None \<Rightarrow> 0 | Some s \<Rightarrow> s)"

text \<open>
  \<^verbatim>\<open>getSocketGroupPosition\<close> of \<^verbatim>\<open>plate-canvas.tsx\<close>: the CSS \<^verbatim>\<open>left\<close> and
  \<^verbatim>\<open>bottom\<close> of the rendered group. (The local \<^verbatim>\<open>groupHeight\<close> is computed and
  not used.)
\<close>

definition getSocketGroupPosition ::
  "(string \<rightharpoonup> real) \<Rightarrow> SocketGroup \<Rightarrow> Plate \<Rightarrow> real \<times> real" where
  "getSocketGroupPosition scales socketGroup plate =
     (let scale = scaleOf scales (Plate.id plate);
          firstSocketBottom = SocketGroup.positionY socketGroup - ANCHOR_OFFSET_CM
      in ((SocketGroup.positionX socketGroup - ANCHOR_OFFSET_CM) * scale,
          firstSocketBottom * scale))"

text \<open>
  The function of the same name in the page component, which the pointer-down handlers
  call to capture the drag offset.
\<close>

definition page_getSocketGroupPosition ::
  "(string \<rightharpoonup> real) \<Rightarrow> SocketGroup \<Rightarrow> Plate \<Rightarrow> real \<times> real" where
  "page_getSocketGroupPosition scales socketGroup plate =
     (let scale = scaleOf scales (Plate.id plate);
          firstSocketLeft = SocketGroup.positionX socketGroup - ANCHOR_OFFSET_CM;
          firstSocketBottom = SocketGroup.positionY socketGroup + ANCHOR_OFFSET_CM
      in (firstSocketLeft * scale, firstSocketBottom * scale))"

text \<open>The width and height a plate is drawn with (\<^verbatim>\<open>platesToShow.map\<close> in the canvas).\<close>

definition renderedPlateWidth :: "(string \<rightharpoonup> real) \<Rightarrow> Plate \<Rightarrow> real" where
  "renderedPlateWidth scales plate = Plate.width plate * scaleOf scales (Plate.id plate)"

definition renderedPlateHeight :: "(string \<rightharpoonup> real) \<Rightarrow> Plate \<Rightarrow> real" where
  "renderedPlateHeight scales plate = Plate.height plate * scaleOf scales (Plate.id plate)"

section \<open>State of the page component\<close>

text \<open>
  The React state and refs that the scaling effect and the drag handler read and write.
  \<^verbatim>\<open>errorMessage\<close> and the ref \<^verbatim>\<open>lastDragErrorToastRef\<close> hold a message or the
  empty string (\<open>None\<close>); \<open>toasts\<close> records the calls of \<^verbatim>\<open>toast.error\<close>, oldest
  first. A state setter called with an updater function is applied to the current state.
\<close>

record DragState =
  isDragging :: bool
  socketGroupId :: "string option"
  offset :: "real \<times> real"
  livePosition :: "(real \<times> real) option"
  liveDistanceX :: "real option"
  liveDistanceY :: "real option"

record AppState =
  plates :: "Plate list"
  socketGroups :: "SocketGroup list"
  selectedSocketGroup :: "SocketGroup option"
  selectedPlate :: string
  errorMessage :: "ErrorMessage option"
  dragState :: "DragState option"
  canvasDimensions :: Dimensions
  plateScales :: "string \<rightharpoonup> real"
  centeringOffset :: real
  shouldCenterPlates :: bool
  lastDragErrorToastRef :: "ErrorMessage option"
  toasts :: "ErrorMessage list"

text \<open>The bounding rectangle of the canvas element and the fields read of a mouse event.\<close>

record DOMRect =
  rectLeft :: real
  rectTop :: real
  rectWidth :: real
  rectHeight :: real

record MouseEvent =
  clientX :: real
  clientY :: real

definition isSinglePlateMode :: "AppState \<Rightarrow> bool" where
  "isSinglePlateMode st \<longleftrightarrow> selectedSocketGroup st \<noteq> None \<or> selectedPlate st \<noteq> ''''"

section \<open>Plate scaling\<close>

text \<open>
  The \<^verbatim>\<open>Math.min(scaleByWidth, scaleByHeight, 1)\<close> over all plates, which the effect
  computes in multi-plate mode and as the fallback of single-plate mode.
  \<^verbatim>\<open>Math.max(...plates.map((p) => p.height))\<close> is \<open>Max\<close> over the heights; the guard
  of the effect keeps the list non-empty.
\<close>

definition allPlatesScale :: "real \<Rightarrow> real \<Rightarrow> Plate list \<Rightarrow> real" where
  "allPlatesScale maxCanvasWidth maxCanvasHeight ps =
     (let totalRealWidth = foldl (\<lambda>sum plate. sum + Plate.width plate) 0 ps;
          maxPlateHeight = Max (set (map Plate.height ps));
          scaleByWidth = maxCanvasWidth / totalRealWidth;
          scaleByHeight = maxCanvasHeight / maxPlateHeight
      in min scaleByWidth (min scaleByHeight 1))"

text \<open>
  The value of \<^verbatim>\<open>finalScale\<close> at the end of the scaling effect, for a state that passes
  the guard of the effect (canvas width not 0, at least one plate).
\<close>

definition finalScale :: "AppState \<Rightarrow> real" where
  "finalScale st =
     (let isMobile = Dimensions.width (canvasDimensions st) < 640;
          padding = (if isMobile then 20 else 80);
          maxCanvasWidth = Dimensions.width (canvasDimensions st) - padding * 2;
          maxCanvasHeight = Dimensions.height (canvasDimensions st) - padding * 2;
          fitted =
            (if isSinglePlateMode st
             then (case find (\<lambda>p. case selectedSocketGroup st of
                                      Some sel \<Rightarrow> Plate.id p = plateId sel
                                    | None \<Rightarrow> Plate.id p = selectedPlate st) (plates st) of
                     Some plateToScale \<Rightarrow>
                       (let scaleByWidth = maxCanvasWidth / Plate.width plateToScale;
                            scaleByHeight = maxCanvasHeight / Plate.height plateToScale
                        in min scaleByWidth (min scaleByHeight 2))
                   | None \<Rightarrow> allPlatesScale maxCanvasWidth maxCanvasHeight (plates st))
             else allPlatesScale maxCanvasWidth maxCanvasHeight (plates st));
          minScale = (if isMobile then 0.3 else 0.2)
      in max minScale fitted)"

text \<open>
  The effect itself: it leaves the state alone when the guard fails; otherwise it stores
  \<open>finalScale\<close> under the id of every plate and sets the centering of the multi-plate
  layout.
\<close>

definition plateScalingEffect :: "AppState \<Rightarrow> AppState" where
  "plateScalingEffect st =
     (if Dimensions.width (canvasDimensions st) = 0 \<or> plates st = [] then st
      else
        let isMobile = Dimensions.width (canvasDimensions st) < 640;
            padding = (if isMobile then 20 else 80);
            scales = fold (\<lambda>plate m. m(Plate.id plate \<mapsto> finalScale st)) (plates st) Map.empty;
            st1 = st\<lparr>plateScales := scales\<rparr>
        in if \<not> isSinglePlateMode st \<and> length (plates st) > 0
           then
             let gap = (if isMobile then 16 else 24);
                 totalContentWidth =
                   foldl (\<lambda>sum plate. sum + Plate.width plate * finalScale st) 0 (plates st)
                   + (real (length (plates st)) - 1) * gap + padding * 2;
                 viewportWidth = Dimensions.width (canvasDimensions st)
             in if totalContentWidth < viewportWidth
                then st1\<lparr>centeringOffset := (viewportWidth - totalContentWidth) / 2,
                         shouldCenterPlates := True\<rparr>
                else st1\<lparr>centeringOffset := 0, shouldCenterPlates := False\<rparr>
           else st1\<lparr>centeringOffset := 0, shouldCenterPlates := False\<rparr>)"

section \<open>Dragging a socket group\<close>

text \<open>
  The loop \<^verbatim>\<open>for (const p of plates)\<close> that adds up the widths of the plates drawn
  before the dragged group's plate, with its \<^verbatim>\<open>break\<close>; \<open>acc\<close> is \<^verbatim>\<open>plateOffsetX\<close>.
\<close>

fun previousPlatesOffset ::
  "(string \<rightharpoonup> real) \<Rightarrow> string \<Rightarrow> real \<Rightarrow> bool \<Rightarrow> real \<Rightarrow> Plate list \<Rightarrow> real" where
  "previousPlatesOffset scales pid gap isFirstPlate acc [] = acc"
| "previousPlatesOffset scales pid gap isFirstPlate acc (p # ps) =
     (if Plate.id p = pid then acc
      else previousPlatesOffset scales pid gap False
             (acc + Plate.width p * scaleOf scales (Plate.id p)
                  + (if \<not> isFirstPlate then gap else 0)) ps)"

text \<open>The pair \<^verbatim>\<open>(plateOffsetX, plateOffsetY)\<close> of the move handler.\<close>

definition plateOffsets :: "AppState \<Rightarrow> DOMRect \<Rightarrow> Plate \<Rightarrow> real \<Rightarrow> real \<times> real" where
  "plateOffsets st rect plate scale =
     (if isSinglePlateMode st
      then
        let padding = (if rectWidth rect < 640 then 20 else 40);
            containerContentWidth = rectWidth rect - padding * 2;
            containerContentHeight = rectHeight rect - padding * 2;
            plateScaledWidth = Plate.width plate * scale;
            plateScaledHeight = Plate.height plate * scale;
            centeringOffsetX = (containerContentWidth - plateScaledWidth) / 2;
            centeringOffsetY = (containerContentHeight - plateScaledHeight) / 2
        in (padding + centeringOffsetX, padding + centeringOffsetY)
      else
        let padding = (if rectWidth rect < 640 then 20 else 40);
            gap = (if rectWidth rect < 640 then 16 else 24);
            plateOffsetX =
              previousPlatesOffset (plateScales st) (Plate.id plate) gap True 0 (plates st)
              + padding
        in (if shouldCenterPlates st then plateOffsetX + centeringOffset st else plateOffsetX,
            0))"

text \<open>
  The first half of \<^verbatim>\<open>handleSocketMouseMove\<close>: its early returns (\<open>None\<close>) and the
  mapping of the pointer to the candidate anchor \<^verbatim>\<open>(plateX, plateY)\<close>, returned with
  the drag state, the dragged group and its plate. Division is that of the reals; a scale
  of 0, where JavaScript yields an infinity or NaN, is outside the model.
\<close>

definition dragCandidate ::
  "AppState \<Rightarrow> DOMRect option \<Rightarrow> MouseEvent
     \<Rightarrow> (DragState \<times> SocketGroup \<times> Plate \<times> real \<times> real) option" where
  "dragCandidate st canvasRect e =
     (case dragState st of
        None \<Rightarrow> None
      | Some ds \<Rightarrow>
     (case canvasRect of
        None \<Rightarrow> None
      | Some rect \<Rightarrow>
     (case find (\<lambda>sg. Some (SocketGroup.id sg) = socketGroupId ds) (socketGroups st) of
        None \<Rightarrow> None
      | Some socketGroup \<Rightarrow>
     (case find (\<lambda>p. Plate.id p = plateId socketGroup) (plates st) of
        None \<Rightarrow> None
      | Some plate \<Rightarrow>
          (let mouseX = clientX e - rectLeft rect - fst (offset ds);
               mouseY = clientY e - rectTop rect - snd (offset ds);
               scale = scaleOf (plateScales st) (plateId socketGroup);
               (plateOffsetX, plateOffsetY) = plateOffsets st rect plate scale;
               mousePlateX = (mouseX - plateOffsetX) / scale;
               mousePlateY = Plate.height plate - (mouseY - plateOffsetY) / scale;
               plateX = mousePlateX + ANCHOR_OFFSET_CM;
               plateY = mousePlateY - ANCHOR_OFFSET_CM
           in Some (ds, socketGroup, plate, plateX, plateY))))))"

text \<open>
  The second half: the live position always goes into the drag state; the stored
  position of the group changes in the branch \<^verbatim>\<open>if (validation.valid)\<close> only, the
  other branch sets the error message and shows a toast when the message is new.
\<close>

definition handleSocketMouseMove :: "AppState \<Rightarrow> DOMRect option \<Rightarrow> MouseEvent \<Rightarrow> AppState" where
  "handleSocketMouseMove st canvasRect e =
     (case dragCandidate st canvasRect e of
        None \<Rightarrow> st
      | Some (ds, socketGroup, plate, plateX, plateY) \<Rightarrow>
          (let st1 = st\<lparr>dragState := Some (ds\<lparr>livePosition := Some (plateX, plateY),
                                               liveDistanceX := Some plateX,
                                               liveDistanceY := Some plateY\<rparr>)\<rparr>;
               validation =
                 validateSocketPosition socketGroup plateX plateY plate (socketGroups st)
           in if valid validation
              then st1\<lparr>socketGroups :=
                          map (\<lambda>sg. if SocketGroup.id sg = SocketGroup.id socketGroup
                                    then socketGroup\<lparr>SocketGroup.positionX := plateX,
                                                     SocketGroup.positionY := plateY\<rparr>
                                    else sg) (socketGroups st),
                       errorMessage := None,
                       lastDragErrorToastRef := None\<rparr>
              else
                let errorMsg = (case error validation of
                                  Some m \<Rightarrow> m | None \<Rightarrow> CannotPlaceSocketHere)
                in if lastDragErrorToastRef st \<noteq> Some errorMsg
                   then st1\<lparr>errorMessage := Some errorMsg,
                            lastDragErrorToastRef := Some errorMsg,
                            toasts := toasts st @ [errorMsg]\<rparr>
                   else st1\<lparr>errorMessage := Some errorMsg\<rparr>))"

text \<open>
  \<^verbatim>\<open>handleSocketMouseDown\<close>: it starts a drag and stores the offset of the pointer from
  the position that \<open>page_getSocketGroupPosition\<close> returns, converted to a distance from
  the top of the plate. (\<^verbatim>\<open>handleSocketTouchStart\<close> does the same with the first touch.)
\<close>

definition handleSocketMouseDown ::
  "AppState \<Rightarrow> DOMRect option \<Rightarrow> MouseEvent \<Rightarrow> SocketGroup \<Rightarrow> AppState" where
  "handleSocketMouseDown st canvasRect e socketGroup =
     (case find (\<lambda>p. Plate.id p = plateId socketGroup) (plates st) of
        None \<Rightarrow> st
      | Some plate \<Rightarrow>
     (case canvasRect of
        None \<Rightarrow> st
      | Some rect \<Rightarrow>
          (let scale = scaleOf (plateScales st) (plateId socketGroup);
               pos = page_getSocketGroupPosition (plateScales st) socketGroup plate;
               (plateOffsetX, plateOffsetY) = plateOffsets st rect plate scale;
               plateHeightPx = Plate.height plate * scale;
               posTopY = plateHeightPx - snd pos
           in st\<lparr>dragState := Some
                 \<lparr>isDragging = True,
                  socketGroupId = Some (SocketGroup.id socketGroup),
                  offset = (clientX e - rectLeft rect - fst pos - plateOffsetX,
                            clientY e - rectTop rect - posTopY - plateOffsetY),
                  livePosition = None, liveDistanceX = None, liveDistanceY = None\<rparr>\<rparr>)))"

section \<open>Initial state\<close>

text \<open>The initial values of the \<^verbatim>\<open>useState\<close> and \<^verbatim>\<open>useRef\<close> hooks of the page.\<close>

definition DEFAULT_PLATES :: "Plate list" where
  "DEFAULT_PLATES =
     [\<lparr>Plate.id = ''1'', width = 151.5, height = 36.8\<rparr>,
      \<lparr>Plate.id = ''2'', width = 200, height = 100\<rparr>]"

definition initialState :: AppState where
  "initialState =
     \<lparr>plates = DEFAULT_PLATES, socketGroups = [], selectedSocketGroup = None,
      selectedPlate = '''', errorMessage = None, dragState = None,
      canvasDimensions = \<lparr>Dimensions.width = 0, Dimensions.height = 0\<rparr>,
      plateScales = Map.empty, centeringOffset = 0, shouldCenterPlates = False,
      lastDragErrorToastRef = None, toasts = []\<rparr>"

section \<open>The validator over binary64 numbers\<close>

text \<open>
  A second embedding of the validator, in which a \<^verbatim>\<open>number\<close> is an IEEE 754 binary64
  value: a finite real, an infinity or NaN. Every arithmetic operation computes the exact
  result and rounds it to the nearest representable value, ties to the even significand;
  results of magnitude \<open>2 ^ 1024\<close> or more after rounding become infinities. The two zeros
  are identified (the validator never divides and its comparisons do not tell them apart).
  A decimal literal or a parsed decimal string \<open>d\<close> is the value \<open>round64 d\<close>;
  \<^verbatim>\<open>Math.sqrt\<close> is the correctly rounded square root.
\<close>

datatype float64 = Finite real | PosInf | NegInf | NaN

text \<open>Rounding of a real to the nearest integer, ties to even.\<close>

definition roundEven :: "real \<Rightarrow> int" where
  "roundEven y =
     (let f = \<lfloor>y\<rfloor>
      in if y - of_int f < 1 / 2 then f
         else if 1 / 2 < y - of_int f then f + 1
         else if even f then f else f + 1)"

text \<open>
  The binary exponent of a real other than 0, not below the exponent \<open>- 1022\<close> of the
  subnormal numbers; one unit in the last place is \<open>2 powi (exponent64 x - 52)\<close>.
\<close>

definition exponent64 :: "real \<Rightarrow> int" where
  "exponent64 x = max \<lfloor>log 2 \<bar>x\<bar>\<rfloor> (- 1022)"

definition round64 :: "real \<Rightarrow> float64" where
  "round64 x =
     (if x = 0 then Finite 0
      else
        let ulp = 2 powi (exponent64 x - 52);
            r = of_int (roundEven (x / ulp)) * ulp
        in if 2 ^ 1024 \<le> \<bar>r\<bar> then (if 0 < x then PosInf else NegInf)
           else Finite r)"

text \<open>The operators \<^verbatim>\<open>+\<close>, unary and binary \<^verbatim>\<open>-\<close>, \<^verbatim>\<open>*\<close> and \<^verbatim>\<open>Math.sqrt\<close>.\<close>

fun fadd :: "float64 \<Rightarrow> float64 \<Rightarrow> float64" where
  "fadd NaN y = NaN"
| "fadd x NaN = NaN"
| "fadd PosInf NegInf = NaN"
| "fadd NegInf PosInf = NaN"
| "fadd PosInf y = PosInf"
| "fadd x PosInf = PosInf"
| "fadd NegInf y = NegInf"
| "fadd x NegInf = NegInf"
| "fadd (Finite a) (Finite b) = round64 (a + b)"

fun fneg :: "float64 \<Rightarrow> float64" where
  "fneg (Finite a) = Finite (- a)"
| "fneg PosInf = NegInf"
| "fneg NegInf = PosInf"
| "fneg NaN = NaN"

definition fsub :: "float64 \<Rightarrow> float64 \<Rightarrow> float64" where
  "fsub x y = fadd x (fneg y)"

fun fmul :: "float64 \<Rightarrow> float64 \<Rightarrow> float64" where
  "fmul NaN y = NaN"
| "fmul x NaN = NaN"
| "fmul (Finite a) (Finite b) = round64 (a * b)"
| "fmul (Finite a) PosInf = (if a = 0 then NaN else if 0 < a then PosInf else NegInf)"
| "fmul (Finite a) NegInf = (if a = 0 then NaN else if 0 < a then NegInf else PosInf)"
| "fmul PosInf (Finite b) = (if b = 0 then NaN else if 0 < b then PosInf else NegInf)"
| "fmul NegInf (Finite b) = (if b = 0 then NaN else if 0 < b then NegInf else PosInf)"
| "fmul PosInf PosInf = PosInf"
| "fmul NegInf NegInf = PosInf"
| "fmul PosInf NegInf = NegInf"
| "fmul NegInf PosInf = NegInf"

fun fsqrt :: "float64 \<Rightarrow> float64" where
  "fsqrt (Finite a) = (if a < 0 then NaN else round64 (sqrt a))"
| "fsqrt PosInf = PosInf"
| "fsqrt NegInf = NaN"
| "fsqrt NaN = NaN"

text \<open>
  The comparisons \<^verbatim>\<open><\<close>, \<^verbatim>\<open>>\<close> and \<^verbatim>\<open><=\<close>; each is false when an operand is NaN.
\<close>

fun flt :: "float64 \<Rightarrow> float64 \<Rightarrow> bool" where
  "flt NaN y = False"
| "flt x NaN = False"
| "flt (Finite a) (Finite b) = (a < b)"
| "flt x NegInf = False"
| "flt PosInf y = False"
| "flt NegInf y = True"
| "flt x PosInf = True"

definition fgt :: "float64 \<Rightarrow> float64 \<Rightarrow> bool" where
  "fgt x y = flt y x"

fun fle :: "float64 \<Rightarrow> float64 \<Rightarrow> bool" where
  "fle NaN y = False"
| "fle x NaN = False"
| "fle (Finite a) (Finite b) = (a \<le> b)"
| "fle NegInf y = True"
| "fle x PosInf = True"
| "fle x NegInf = False"
| "fle PosInf y = False"

text \<open>
  \<^verbatim>\<open>Number.MAX_VALUE\<close>, the largest finite binary64 value, and \<^verbatim>\<open>Number.isFinite\<close>.
\<close>

definition MAX_VALUE :: real where
  "MAX_VALUE = (2 ^ 53 - 1) * 2 ^ 971"

fun isFinite64 :: "float64 \<Rightarrow> bool" where
  "isFinite64 (Finite x) = (\<bar>x\<bar> \<le> MAX_VALUE)"
| "isFinite64 v = False"

text \<open>
  The interfaces and the validator once more, with binary64 fields; names carry the
  suffix 64. The diagnostic holds the numbers of the message before \<^verbatim>\<open>toFixed(1)\<close>
  formats them.
\<close>

record Plate64 =
  id64 :: string
  width64 :: float64
  height64 :: float64

record SocketGroup64 =
  id64 :: string
  plateId64 :: string
  count64 :: float64
  direction64 :: Direction
  positionX64 :: float64
  positionY64 :: float64

record Dimensions64 =
  width64 :: float64
  height64 :: float64

datatype ErrorMessage64 =
    LeftEdgeError64 float64 float64 float64
  | BottomEdgeError64 float64 float64 float64
  | RightEdgeError64 float64 float64 float64
  | TopEdgeError64 float64 float64 float64
  | GroupDistanceError64 float64

record ValidatedPosition64 =
  valid64 :: bool
  error64 :: "ErrorMessage64 option"
  positionX64 :: float64
  positionY64 :: float64

definition SOCKET_SIZE64 :: float64 where
  "SOCKET_SIZE64 = Finite 7"

definition SOCKET_GAP64 :: float64 where
  "SOCKET_GAP64 = round64 0.2"

definition MIN_EDGE_DISTANCE64 :: float64 where
  "MIN_EDGE_DISTANCE64 = Finite 3"

definition MIN_GROUP_DISTANCE64 :: float64 where
  "MIN_GROUP_DISTANCE64 = Finite 4"

definition ANCHOR_OFFSET_CM64 :: float64 where
  "ANCHOR_OFFSET_CM64 = Finite 3.5"

definition calculateSocketGroupDimensions64 :: "float64 \<Rightarrow> Direction \<Rightarrow> Dimensions64" where
  "calculateSocketGroupDimensions64 cnt dir =
     (let totalSocketSpace = fmul cnt SOCKET_SIZE64;
          gaps = fmul (fsub cnt (Finite 1)) SOCKET_GAP64;
          totalDimension = fadd totalSocketSpace gaps
      in if dir = horizontal
         then \<lparr>Dimensions64.width64 = totalDimension, Dimensions64.height64 = SOCKET_SIZE64\<rparr>
         else \<lparr>Dimensions64.width64 = SOCKET_SIZE64, Dimensions64.height64 = totalDimension\<rparr>)"

definition rectDistance64 ::
  "float64 \<Rightarrow> float64 \<Rightarrow> float64 \<Rightarrow> float64 \<Rightarrow> float64 \<Rightarrow> float64 \<Rightarrow> float64 \<Rightarrow> float64
     \<Rightarrow> float64" where
  "rectDistance64 r1Left r1Right r1Bottom r1Top r2Left r2Right r2Bottom r2Top =
     (let hDistance = (if flt r1Right r2Left then fsub r2Left r1Right
                       else if flt r2Right r1Left then fsub r1Left r2Right
                       else Finite 0);
          vDistance = (if fgt r1Bottom r2Top then fsub r1Bottom r2Top
                       else if fgt r2Bottom r1Top then fsub r2Bottom r1Top
                       else Finite 0)
      in fsqrt (fadd (fmul hDistance hDistance) (fmul vDistance vDistance)))"

definition totalDistance64 ::
  "float64 \<Rightarrow> float64 \<Rightarrow> float64 \<Rightarrow> float64 \<Rightarrow> SocketGroup64 \<Rightarrow> float64" where
  "totalDistance64 posX posY groupWidth groupHeight other =
     (let otherDims = calculateSocketGroupDimensions64 (count64 other) (direction64 other);
          otherWidth = Dimensions64.width64 otherDims;
          otherHeight = Dimensions64.height64 otherDims;
          r1Left = fsub posX ANCHOR_OFFSET_CM64;
          r1Right = fadd r1Left groupWidth;
          r1Bottom = fsub posY ANCHOR_OFFSET_CM64;
          r1Top = fadd r1Bottom groupHeight;
          r2Left = fsub (SocketGroup64.positionX64 other) ANCHOR_OFFSET_CM64;
          r2Right = fadd r2Left otherWidth;
          r2Bottom = fsub (SocketGroup64.positionY64 other) ANCHOR_OFFSET_CM64;
          r2Top = fadd r2Bottom otherHeight
      in rectDistance64 r1Left r1Right r1Bottom r1Top r2Left r2Right r2Bottom r2Top)"

fun checkOtherGroups64 ::
  "SocketGroup64 \<Rightarrow> float64 \<Rightarrow> float64 \<Rightarrow> float64 \<Rightarrow> float64 \<Rightarrow> SocketGroup64 list
     \<Rightarrow> ValidatedPosition64" where
  "checkOtherGroups64 socketGroup posX posY groupWidth groupHeight [] =
     \<lparr>valid64 = True, error64 = None, positionX64 = posX, positionY64 = posY\<rparr>"
| "checkOtherGroups64 socketGroup posX posY groupWidth groupHeight (other # rest) =
     (if SocketGroup64.id64 other = SocketGroup64.id64 socketGroup
         \<or> plateId64 other \<noteq> plateId64 socketGroup
      then checkOtherGroups64 socketGroup posX posY groupWidth groupHeight rest
      else if flt (totalDistance64 posX posY groupWidth groupHeight other) MIN_GROUP_DISTANCE64
      then \<lparr>valid64 = False,
            error64 = Some (GroupDistanceError64
                              (totalDistance64 posX posY groupWidth groupHeight other)),
            positionX64 = posX, positionY64 = posY\<rparr>
      else checkOtherGroups64 socketGroup posX posY groupWidth groupHeight rest)"

definition validateSocketPosition64 ::
  "SocketGroup64 \<Rightarrow> float64 \<Rightarrow> float64 \<Rightarrow> Plate64 \<Rightarrow> SocketGroup64 list
     \<Rightarrow> ValidatedPosition64" where
  "validateSocketPosition64 socketGroup posX posY plate allSocketGroups =
     (let dims = calculateSocketGroupDimensions64 (count64 socketGroup) (direction64 socketGroup);
          groupWidth = Dimensions64.width64 dims;
          groupHeight = Dimensions64.height64 dims;
          groupLeftX = fsub posX ANCHOR_OFFSET_CM64;
          groupBottomY = fsub posY ANCHOR_OFFSET_CM64;
          groupRightX = fadd groupLeftX groupWidth;
          groupTopY = fadd groupBottomY groupHeight
      in if flt groupLeftX MIN_EDGE_DISTANCE64
         then \<lparr>valid64 = False,
               error64 = Some (LeftEdgeError64 (fadd MIN_EDGE_DISTANCE64 ANCHOR_OFFSET_CM64)
                                 (Plate64.width64 plate) groupWidth),
               positionX64 = posX, positionY64 = posY\<rparr>
         else if flt groupBottomY MIN_EDGE_DISTANCE64
         then \<lparr>valid64 = False,
               error64 = Some (BottomEdgeError64 (fadd MIN_EDGE_DISTANCE64 ANCHOR_OFFSET_CM64)
                                 (Plate64.height64 plate) groupHeight),
               positionX64 = posX, positionY64 = posY\<rparr>
         else if fgt groupRightX (fsub (Plate64.width64 plate) MIN_EDGE_DISTANCE64)
         then \<lparr>valid64 = False,
               error64 = Some (RightEdgeError64
                                 (fadd (fsub (fsub (Plate64.width64 plate) MIN_EDGE_DISTANCE64)
                                          groupWidth) ANCHOR_OFFSET_CM64)
                                 (Plate64.width64 plate) groupWidth),
               positionX64 = posX, positionY64 = posY\<rparr>
         else if fgt groupTopY (fsub (Plate64.height64 plate) MIN_EDGE_DISTANCE64)
         then \<lparr>valid64 = False,
               error64 = Some (TopEdgeError64
                                 (fadd (fsub (fsub (Plate64.height64 plate) MIN_EDGE_DISTANCE64)
                                          groupHeight) ANCHOR_OFFSET_CM64)
                                 (Plate64.height64 plate) groupHeight),
               positionX64 = posX, positionY64 = posY\<rparr>
         else checkOtherGroups64 socketGroup posX posY groupWidth groupHeight allSocketGroups)"

section \<open>Properties of the dimension calculator\<close>

lemmas cm_constants =
  SOCKET_SIZE_def SOCKET_GAP_def MIN_EDGE_DISTANCE_def MIN_GROUP_DISTANCE_def
  ANCHOR_OFFSET_CM_def

lemma calc_width_horizontal:
  "Dimensions.width (calculateSocketGroupDimensions cnt horizontal) = cnt * 7 + (cnt - 1) * 0.2"
  by (simp add: calculateSocketGroupDimensions_def cm_constants)

lemma calc_height_horizontal:
  "Dimensions.height (calculateSocketGroupDimensions cnt horizontal) = 7"
  by (simp add: calculateSocketGroupDimensions_def cm_constants)

lemma calc_width_vertical:
  "Dimensions.width (calculateSocketGroupDimensions cnt vertical) = 7"
  by (simp add: calculateSocketGroupDimensions_def cm_constants)

lemma calc_height_vertical:
  "Dimensions.height (calculateSocketGroupDimensions cnt vertical) = cnt * 7 + (cnt - 1) * 0.2"
  by (simp add: calculateSocketGroupDimensions_def cm_constants)


text \<open>
  Claim C6. For every count (in particular every count from 1 to 5) and every direction,
  \<open>calculateSocketGroupDimensions\<close> returns \<open>count * 7 + (count - 1) * 0.2\<close> as the
  gapped dimension and exactly 7 as the other one: a horizontal group has that span as its
  width and height 7, a vertical group has width 7 and that span as its height. Three
  horizontal sockets are 21.4 wide and 7 high.
\<close>

theorem C6_dimensions:
  "calculateSocketGroupDimensions cnt horizontal
     = \<lparr>Dimensions.width = cnt * 7 + (cnt - 1) * 0.2, Dimensions.height = 7\<rparr>
   \<and> calculateSocketGroupDimensions cnt vertical
     = \<lparr>Dimensions.width = 7, Dimensions.height = cnt * 7 + (cnt - 1) * 0.2\<rparr>
   \<and> calculateSocketGroupDimensions 3 horizontal
     = \<lparr>Dimensions.width = 21.4, Dimensions.height = 7\<rparr>"
  by (simp add: calculateSocketGroupDimensions_def cm_constants)

section \<open>Properties of the validator\<close>


lemma checkOtherGroups_position:
  "positionX (checkOtherGroups sg x y w h gs) = x \<and> positionY (checkOtherGroups sg x y w h gs) = y"
  by (induction gs) simp_all

lemma checkOtherGroups_valid_iff:
  "valid (checkOtherGroups sg x y w h gs) \<longleftrightarrow>
     (\<forall>other\<in>set gs. SocketGroup.id other \<noteq> SocketGroup.id sg \<and> plateId other = plateId sg
        \<longrightarrow> MIN_GROUP_DISTANCE \<le> totalDistance x y w h other)"
  by (induction gs) auto

lemma checkOtherGroups_accept:
  "valid (checkOtherGroups sg x y w h gs) \<Longrightarrow>
     checkOtherGroups sg x y w h gs = \<lparr>valid = True, error = None, positionX = x, positionY = y\<rparr>"
  by (induction gs) (auto split: if_splits)

lemma checkOtherGroups_reject:
  "\<not> valid (checkOtherGroups sg x y w h gs) \<Longrightarrow>
     \<exists>d. d < MIN_GROUP_DISTANCE \<and>
       checkOtherGroups sg x y w h gs
         = \<lparr>valid = False, error = Some (GroupDistanceError d), positionX = x, positionY = y\<rparr>"
  by (induction gs) (auto split: if_splits)

lemma checkOtherGroups_filter:
  "checkOtherGroups sg x y w h (filter (\<lambda>g. plateId g = plateId sg) gs)
     = checkOtherGroups sg x y w h gs"
  by (induction gs) simp_all


lemma validate_edges_pass:
  assumes "3 \<le> x - 3.5" "3 \<le> y - 3.5"
    "x - 3.5 + Dimensions.width (calculateSocketGroupDimensions (count sg) (direction sg)) \<le> Plate.width plate - 3"
    "y - 3.5 + Dimensions.height (calculateSocketGroupDimensions (count sg) (direction sg)) \<le> Plate.height plate - 3"
  shows "validateSocketPosition sg x y plate gs
     = checkOtherGroups sg x y
         (Dimensions.width (calculateSocketGroupDimensions (count sg) (direction sg)))
         (Dimensions.height (calculateSocketGroupDimensions (count sg) (direction sg))) gs"
  using assms by (simp add: validateSocketPosition_def Let_def cm_constants)


lemma validate_position:
  "positionX (validateSocketPosition sg x y plate gs) = x
   \<and> positionY (validateSocketPosition sg x y plate gs) = y"
  by (simp add: validateSocketPosition_def Let_def checkOtherGroups_position)


text \<open>
  Claim C4. Two sibling lists that agree on the groups carrying the plate id of the validated
  group give the same result (validity, diagnostic and echoed position), however they differ
  in groups of other plates.
\<close>

theorem C4_other_plates_ignored:
  assumes "filter (\<lambda>g. plateId g = plateId socketGroup) groups1
         = filter (\<lambda>g. plateId g = plateId socketGroup) groups2"
  shows "validateSocketPosition socketGroup posX posY plate groups1
       = validateSocketPosition socketGroup posX posY plate groups2"
proof -
  have "checkOtherGroups socketGroup posX posY w h groups1
      = checkOtherGroups socketGroup posX posY w h groups2" for w h
    using assms checkOtherGroups_filter [of socketGroup posX posY w h groups1]
      checkOtherGroups_filter [of socketGroup posX posY w h groups2] by simp
  then show ?thesis by (simp add: validateSocketPosition_def Let_def)
qed



lemmas validator_defs =
  validateSocketPosition_def totalDistance_def rectDistance_def
  calculateSocketGroupDimensions_def Let_def cm_constants

text \<open>
  Claim C3. Plate 100 by 60. Group A (3 sockets, horizontal) is accepted at anchor (10, 10)
  when no other group is on the plate; its box is left 6.5, bottom 6.5, right 27.9, top 13.5.
  With A stored at (10, 10), group B (1 socket, vertical) is rejected at anchor (14, 10),
  box left 10.5, right 17.5, bottom 6.5, top 13.5, with the group-distance diagnostic
  carrying distance 0.
\<close>

theorem C3_end_to_end:
  assumes "idA \<noteq> idB"
    and "\<forall>s\<in>set before. SocketGroup.id s = idA \<or> plateId s \<noteq> pid"
  shows "validateSocketPosition
           \<lparr>SocketGroup.id = idA, plateId = pid, count = 3, direction = horizontal,
            positionX = ax, positionY = ay\<rparr>
           10 10 \<lparr>Plate.id = pid, width = 100, height = 60\<rparr> before
         = \<lparr>valid = True, error = None, positionX = 10, positionY = 10\<rparr>
       \<and> 10 - ANCHOR_OFFSET_CM = 6.5
       \<and> 10 - ANCHOR_OFFSET_CM
           + Dimensions.width (calculateSocketGroupDimensions 3 horizontal) = 27.9
       \<and> 10 - ANCHOR_OFFSET_CM
           + Dimensions.height (calculateSocketGroupDimensions 3 horizontal) = 13.5
       \<and> validateSocketPosition
           \<lparr>SocketGroup.id = idB, plateId = pid, count = 1, direction = vertical,
            positionX = bx, positionY = bY\<rparr>
           14 10 \<lparr>Plate.id = pid, width = 100, height = 60\<rparr>
           (\<lparr>SocketGroup.id = idA, plateId = pid, count = 3, direction = horizontal,
             positionX = 10, positionY = 10\<rparr> # rest)
         = \<lparr>valid = False, error = Some (GroupDistanceError 0), positionX = 14, positionY = 10\<rparr>
       \<and> 14 - ANCHOR_OFFSET_CM = 10.5
       \<and> 14 - ANCHOR_OFFSET_CM
           + Dimensions.width (calculateSocketGroupDimensions 1 vertical) = 17.5
       \<and> 10 - ANCHOR_OFFSET_CM
           + Dimensions.height (calculateSocketGroupDimensions 1 vertical) = 13.5"
proof -
  let ?A0 = "\<lparr>SocketGroup.id = idA, plateId = pid, count = 3, direction = horizontal,
            positionX = ax, positionY = ay\<rparr>"
  let ?plate = "\<lparr>Plate.id = pid, width = 100, height = 60\<rparr>"
  have "validateSocketPosition ?A0 10 10 ?plate before
      = checkOtherGroups ?A0 10 10 21.4 7 before"
    by (simp add: validator_defs)
  moreover have "valid (checkOtherGroups ?A0 10 10 21.4 7 before)"
    unfolding checkOtherGroups_valid_iff using assms(2) by auto
  ultimately have a: "validateSocketPosition ?A0 10 10 ?plate before
         = \<lparr>valid = True, error = None, positionX = 10, positionY = 10\<rparr>"
    by (simp add: checkOtherGroups_accept)
  have b: "validateSocketPosition
           \<lparr>SocketGroup.id = idB, plateId = pid, count = 1, direction = vertical,
            positionX = bx, positionY = bY\<rparr>
           14 10 ?plate
           (\<lparr>SocketGroup.id = idA, plateId = pid, count = 3, direction = horizontal,
             positionX = 10, positionY = 10\<rparr> # rest)
         = \<lparr>valid = False, error = Some (GroupDistanceError 0), positionX = 14, positionY = 10\<rparr>"
    using assms(1) by (simp add: validator_defs)
  have c: "10 - ANCHOR_OFFSET_CM = 6.5
       \<and> 10 - ANCHOR_OFFSET_CM
           + Dimensions.width (calculateSocketGroupDimensions 3 horizontal) = 27.9
       \<and> 10 - ANCHOR_OFFSET_CM
           + Dimensions.height (calculateSocketGroupDimensions 3 horizontal) = 13.5
       \<and> 14 - ANCHOR_OFFSET_CM = 10.5
       \<and> 14 - ANCHOR_OFFSET_CM
           + Dimensions.width (calculateSocketGroupDimensions 1 vertical) = 17.5
       \<and> 10 - ANCHOR_OFFSET_CM
           + Dimensions.height (calculateSocketGroupDimensions 1 vertical) = 13.5"
    by (simp add: calculateSocketGroupDimensions_def cm_constants)
  from a b c show ?thesis by blast
qed

section \<open>Concrete instances\<close>


text \<open>
  Claim C4 with a group of another plate whose coordinates overlap the candidate.
\<close>

theorem C4_other_plates_ignored_witness:
  "validateSocketPosition
      \<lparr>SocketGroup.id = ''g1'', plateId = ''p1'', count = 1, direction = vertical,
       positionX = 50, positionY = 30\<rparr>
      10 10 \<lparr>Plate.id = ''p1'', width = 100, height = 60\<rparr>
      [\<lparr>SocketGroup.id = ''g2'', plateId = ''p2'', count = 3, direction = horizontal,
        positionX = 10, positionY = 10\<rparr>]
    = validateSocketPosition
      \<lparr>SocketGroup.id = ''g1'', plateId = ''p1'', count = 1, direction = vertical,
       positionX = 50, positionY = 30\<rparr>
      10 10 \<lparr>Plate.id = ''p1'', width = 100, height = 60\<rparr> []"
  using C4_other_plates_ignored
    [of "\<lparr>SocketGroup.id = ''g1'', plateId = ''p1'', count = 1, direction = vertical,
          positionX = 50, positionY = 30\<rparr>"
        "[\<lparr>SocketGroup.id = ''g2'', plateId = ''p2'', count = 3, direction = horizontal,
           positionX = 10, positionY = 10\<rparr>]"
        "[]" 10 10 "\<lparr>Plate.id = ''p1'', width = 100, height = 60\<rparr>"]
  by simp

text \<open>Claim C3 with the ids A and B.\<close>

theorem C3_end_to_end_witness:
  "validateSocketPosition
      \<lparr>SocketGroup.id = ''A'', plateId = ''p1'', count = 3, direction = horizontal,
       positionX = 0, positionY = 0\<rparr>
      10 10 \<lparr>Plate.id = ''p1'', width = 100, height = 60\<rparr> []
    = \<lparr>valid = True, error = None, positionX = 10, positionY = 10\<rparr>
   \<and> validateSocketPosition
      \<lparr>SocketGroup.id = ''B'', plateId = ''p1'', count = 1, direction = vertical,
       positionX = 0, positionY = 0\<rparr>
      14 10 \<lparr>Plate.id = ''p1'', width = 100, height = 60\<rparr>
      [\<lparr>SocketGroup.id = ''A'', plateId = ''p1'', count = 3, direction = horizontal,
        positionX = 10, positionY = 10\<rparr>]
    = \<lparr>valid = False, error = Some (GroupDistanceError 0), positionX = 14, positionY = 10\<rparr>"
  using C3_end_to_end [of "''A''" "''B''" "[]" "''p1''" 0 0 0 0 "[]"]
  by simp

section \<open>Properties of the scaling effect\<close>

lemma fold_upd_lookup:
  "fold (\<lambda>plate m. m(Plate.id plate \<mapsto> s)) ps m0 k
     = (if k \<in> Plate.id ` set ps then Some s else m0 k)"
  by (induction ps arbitrary: m0) auto

lemma plateScales_after_effect:
  assumes "Dimensions.width (canvasDimensions st) \<noteq> 0" and "plates st \<noteq> []"
  shows "plateScales (plateScalingEffect st) k
     = (if k \<in> Plate.id ` set (plates st) then Some (finalScale st) else None)"
  using assms by (simp add: plateScalingEffect_def Let_def fold_upd_lookup)

lemma foldl_width_sum:
  "foldl (\<lambda>sum plate. sum + Plate.width plate) a ps = a + sum_list (map Plate.width ps)"
  by (induction ps arbitrary: a) simp_all

lemma allPlatesScale_le: "allPlatesScale w h ps \<le> 1"
  by (simp add: allPlatesScale_def Let_def)

lemma finalScale_floor:
  "(if Dimensions.width (canvasDimensions st) < 640 then 0.3 else 0.2) \<le> finalScale st"
  by (simp add: finalScale_def Let_def)

lemma finalScale_cap: "finalScale st \<le> (if isSinglePlateMode st then 2 else 1)"
proof -
  have a: "allPlatesScale w h ps \<le> 2" for w h ps
    using allPlatesScale_le [of w h ps] by simp
  show ?thesis
    by (auto simp: finalScale_def Let_def allPlatesScale_le a split: option.splits)
qed

lemma finalScale_pos: "0 < finalScale st"
  using finalScale_floor [of st] by (auto split: if_splits)

lemma finalScale_multi:
  assumes "\<not> isSinglePlateMode st"
  shows "finalScale st
     = max (if Dimensions.width (canvasDimensions st) < 640 then 0.3 else 0.2)
         (allPlatesScale
            (Dimensions.width (canvasDimensions st)
               - (if Dimensions.width (canvasDimensions st) < 640 then 20 else 80) * 2)
            (Dimensions.height (canvasDimensions st)
               - (if Dimensions.width (canvasDimensions st) < 640 then 20 else 80) * 2)
            (plates st))"
  unfolding finalScale_def Let_def using assms by (simp only: if_False)

lemma finalScale_single:
  assumes "isSinglePlateMode st"
    and "find (\<lambda>p. case selectedSocketGroup st of
                       Some sel \<Rightarrow> Plate.id p = plateId sel
                     | None \<Rightarrow> Plate.id p = selectedPlate st) (plates st) = Some p"
  shows "finalScale st
     = max (if Dimensions.width (canvasDimensions st) < 640 then 0.3 else 0.2)
         (min ((Dimensions.width (canvasDimensions st)
                 - (if Dimensions.width (canvasDimensions st) < 640 then 20 else 80) * 2)
               / Plate.width p)
            (min ((Dimensions.height (canvasDimensions st)
                    - (if Dimensions.width (canvasDimensions st) < 640 then 20 else 80) * 2)
                  / Plate.height p) 2))"
  unfolding finalScale_def Let_def using assms by (simp only: if_True option.case)

lemma allPlatesScale_sum:
  "allPlatesScale w h ps
     = min (w / sum_list (map Plate.width ps)) (min (h / Max (set (map Plate.height ps))) 1)"
  unfolding allPlatesScale_def Let_def foldl_width_sum by simp

text \<open>
  Claim C8. When the scaling effect passes its guard (canvas width not 0, at least one
  plate) and the plates have positive width and height, the scale it computes and stores for
  every plate is at most 2 in single-plate mode and at most 1 in multi-plate mode, and at
  least the floor (0.3 for a canvas narrower than 640, else 0.2). It is the floor applied
  after the cap: the maximum of the floor and \<open>min (availableWidth / widths)
  (min (availableHeight / heights) cap)\<close>, with the sum of widths, the largest height and
  cap 1 in multi-plate mode, and with the selected plate's width and height and cap 2 in
  single-plate mode.
\<close>

theorem C8_scale_bounds:
  assumes "Dimensions.width (canvasDimensions st) \<noteq> 0" and "plates st \<noteq> []"
    and "\<forall>p\<in>set (plates st). 0 < Plate.width p \<and> 0 < Plate.height p"
  shows "finalScale st \<le> (if isSinglePlateMode st then 2 else 1)
       \<and> (if Dimensions.width (canvasDimensions st) < 640 then 0.3 else 0.2) \<le> finalScale st
       \<and> (\<forall>p\<in>set (plates st).
              plateScales (plateScalingEffect st) (Plate.id p) = Some (finalScale st))
       \<and> (let isMobile = Dimensions.width (canvasDimensions st) < 640;
               padding = (if isMobile then 20 else 80);
               availableWidth = Dimensions.width (canvasDimensions st) - padding * 2;
               availableHeight = Dimensions.height (canvasDimensions st) - padding * 2;
               minScale = (if isMobile then 0.3 else 0.2)
           in (\<not> isSinglePlateMode st \<longrightarrow>
                 finalScale st
                   = max minScale
                       (min (availableWidth / sum_list (map Plate.width (plates st)))
                          (min (availableHeight / Max (set (map Plate.height (plates st)))) 1)))
              \<and> (\<forall>p. isSinglePlateMode st
                      \<and> find (\<lambda>p. case selectedSocketGroup st of
                                      Some sel \<Rightarrow> Plate.id p = plateId sel
                                    | None \<Rightarrow> Plate.id p = selectedPlate st) (plates st) = Some p
                    \<longrightarrow> finalScale st
                          = max minScale
                              (min (availableWidth / Plate.width p)
                                 (min (availableHeight / Plate.height p) 2))))"
proof (intro conjI)
  show "finalScale st \<le> (if isSinglePlateMode st then 2 else 1)"
    by (rule finalScale_cap)
  show "(if Dimensions.width (canvasDimensions st) < 640 then 0.3 else 0.2) \<le> finalScale st"
    by (rule finalScale_floor)
  show "\<forall>p\<in>set (plates st).
      plateScales (plateScalingEffect st) (Plate.id p) = Some (finalScale st)"
    using assms(1,2) by (simp add: plateScales_after_effect)
  show "(let isMobile = Dimensions.width (canvasDimensions st) < 640;
               padding = (if isMobile then 20 else 80);
               availableWidth = Dimensions.width (canvasDimensions st) - padding * 2;
               availableHeight = Dimensions.height (canvasDimensions st) - padding * 2;
               minScale = (if isMobile then 0.3 else 0.2)
           in (\<not> isSinglePlateMode st \<longrightarrow>
                 finalScale st
                   = max minScale
                       (min (availableWidth / sum_list (map Plate.width (plates st)))
                          (min (availableHeight / Max (set (map Plate.height (plates st)))) 1)))
              \<and> (\<forall>p. isSinglePlateMode st
                      \<and> find (\<lambda>p. case selectedSocketGroup st of
                                      Some sel \<Rightarrow> Plate.id p = plateId sel
                                    | None \<Rightarrow> Plate.id p = selectedPlate st) (plates st) = Some p
                    \<longrightarrow> finalScale st
                          = max minScale
                              (min (availableWidth / Plate.width p)
                                 (min (availableHeight / Plate.height p) 2))))"
    unfolding Let_def
  proof (intro conjI impI allI)
    assume multi: "\<not> isSinglePlateMode st"
    show "finalScale st
        = max (if Dimensions.width (canvasDimensions st) < 640 then 0.3 else 0.2)
            (min ((Dimensions.width (canvasDimensions st)
                    - (if Dimensions.width (canvasDimensions st) < 640 then 20 else 80) * 2)
                  / sum_list (map Plate.width (plates st)))
               (min ((Dimensions.height (canvasDimensions st)
                       - (if Dimensions.width (canvasDimensions st) < 640 then 20 else 80) * 2)
                     / Max (set (map Plate.height (plates st)))) 1))"
      unfolding finalScale_multi [OF multi] allPlatesScale_sum by (rule refl)
  next
    fix p
    assume "isSinglePlateMode st
        \<and> find (\<lambda>p. case selectedSocketGroup st of
                        Some sel \<Rightarrow> Plate.id p = plateId sel
                      | None \<Rightarrow> Plate.id p = selectedPlate st) (plates st) = Some p"
    then show "finalScale st
        = max (if Dimensions.width (canvasDimensions st) < 640 then 0.3 else 0.2)
            (min ((Dimensions.width (canvasDimensions st)
                    - (if Dimensions.width (canvasDimensions st) < 640 then 20 else 80) * 2)
                  / Plate.width p)
               (min ((Dimensions.height (canvasDimensions st)
                       - (if Dimensions.width (canvasDimensions st) < 640 then 20 else 80) * 2)
                     / Plate.height p) 2))"
      using finalScale_single [of st p] by blast
  qed
qed

text \<open>
  Claim C9. After the scaling effect has computed a scale, any two plates of the list are
  stored with that same scale, so their rendered widths are in the ratio of their real
  widths; a plate 40 wide is drawn exactly half as wide as one 80 wide, whatever the canvas
  size.
\<close>

theorem C9_uniform_scale:
  assumes "Dimensions.width (canvasDimensions st) \<noteq> 0" and "plates st \<noteq> []"
    and "p \<in> set (plates st)" and "q \<in> set (plates st)"
  shows "plateScales (plateScalingEffect st) (Plate.id p) = Some (finalScale st)
       \<and> plateScales (plateScalingEffect st) (Plate.id q) = Some (finalScale st)
       \<and> renderedPlateWidth (plateScales (plateScalingEffect st)) p * Plate.width q
           = renderedPlateWidth (plateScales (plateScalingEffect st)) q * Plate.width p
       \<and> (Plate.width q \<noteq> 0 \<longrightarrow>
            renderedPlateWidth (plateScales (plateScalingEffect st)) p
              / renderedPlateWidth (plateScales (plateScalingEffect st)) q
            = Plate.width p / Plate.width q)
       \<and> (Plate.width p = 40 \<and> Plate.width q = 80 \<longrightarrow>
            renderedPlateWidth (plateScales (plateScalingEffect st)) p
            = renderedPlateWidth (plateScales (plateScalingEffect st)) q / 2)"
proof -
  have sp: "plateScales (plateScalingEffect st) (Plate.id p) = Some (finalScale st)"
    using assms(1-3) by (simp add: plateScales_after_effect)
  have sq: "plateScales (plateScalingEffect st) (Plate.id q) = Some (finalScale st)"
    using assms(1,2,4) by (simp add: plateScales_after_effect)
  have rp: "renderedPlateWidth (plateScales (plateScalingEffect st)) p
      = Plate.width p * finalScale st"
    by (simp add: renderedPlateWidth_def scaleOf_def sp)
  have rq: "renderedPlateWidth (plateScales (plateScalingEffect st)) q
      = Plate.width q * finalScale st"
    by (simp add: renderedPlateWidth_def scaleOf_def sq)
  have nz: "finalScale st \<noteq> 0"
    using finalScale_pos [of st] by simp
  show ?thesis
    unfolding rp rq using sp sq nz by simp
qed

section \<open>Properties of the drag handler and of the rendering position\<close>

lemma handleSocketMouseMove_no_candidate:
  "dragCandidate st canvasRect e = None \<Longrightarrow> handleSocketMouseMove st canvasRect e = st"
  by (simp add: handleSocketMouseMove_def)

lemma handleSocketMouseMove_invalid:
  assumes "dragCandidate st canvasRect e = Some (ds, socketGroup, plate, plateX, plateY)"
    and "\<not> valid (validateSocketPosition socketGroup plateX plateY plate (socketGroups st))"
  shows "socketGroups (handleSocketMouseMove st canvasRect e) = socketGroups st"
  using assms by (simp add: handleSocketMouseMove_def Let_def)

lemma handleSocketMouseMove_valid:
  assumes "dragCandidate st canvasRect e = Some (ds, socketGroup, plate, plateX, plateY)"
    and "valid (validateSocketPosition socketGroup plateX plateY plate (socketGroups st))"
  shows "socketGroups (handleSocketMouseMove st canvasRect e)
      = map (\<lambda>sg. if SocketGroup.id sg = SocketGroup.id socketGroup
                   then socketGroup\<lparr>SocketGroup.positionX := plateX,
                                    SocketGroup.positionY := plateY\<rparr>
                   else sg) (socketGroups st)"
  using assms by (simp add: handleSocketMouseMove_def Let_def)

text \<open>
  Claim C7. A pointer-move step whose mapped candidate fails validation leaves the list of
  socket groups as it was; and whenever the step changes the list, the candidate was valid
  and the change is the new position of the dragged group.
\<close>

theorem C7_rejected_drag_keeps_position:
  "(dragCandidate st canvasRect e = Some (ds, socketGroup, plate, plateX, plateY)
      \<and> \<not> valid (validateSocketPosition socketGroup plateX plateY plate (socketGroups st))
    \<longrightarrow> socketGroups (handleSocketMouseMove st canvasRect e) = socketGroups st)
   \<and> (socketGroups (handleSocketMouseMove st canvasRect e) \<noteq> socketGroups st
    \<longrightarrow> (\<exists>ds' socketGroup' plate' plateX' plateY'.
           dragCandidate st canvasRect e = Some (ds', socketGroup', plate', plateX', plateY')
           \<and> valid (validateSocketPosition socketGroup' plateX' plateY' plate' (socketGroups st))
           \<and> socketGroups (handleSocketMouseMove st canvasRect e)
               = map (\<lambda>sg. if SocketGroup.id sg = SocketGroup.id socketGroup'
                            then socketGroup'\<lparr>SocketGroup.positionX := plateX',
                                              SocketGroup.positionY := plateY'\<rparr>
                            else sg) (socketGroups st)))"
proof (intro conjI impI)
  assume "dragCandidate st canvasRect e = Some (ds, socketGroup, plate, plateX, plateY)
      \<and> \<not> valid (validateSocketPosition socketGroup plateX plateY plate (socketGroups st))"
  then show "socketGroups (handleSocketMouseMove st canvasRect e) = socketGroups st"
    using handleSocketMouseMove_invalid by blast
next
  assume changed: "socketGroups (handleSocketMouseMove st canvasRect e) \<noteq> socketGroups st"
  have "dragCandidate st canvasRect e \<noteq> None"
  proof
    assume "dragCandidate st canvasRect e = None"
    then have "handleSocketMouseMove st canvasRect e = st"
      by (rule handleSocketMouseMove_no_candidate)
    with changed show False by simp
  qed
  then obtain ds' sg' plate' x' y'
    where c: "dragCandidate st canvasRect e = Some (ds', sg', plate', x', y')"
    by (cases "dragCandidate st canvasRect e") auto
  have v: "valid (validateSocketPosition sg' x' y' plate' (socketGroups st))"
    using changed handleSocketMouseMove_invalid [OF c] by blast
  from c v handleSocketMouseMove_valid [OF c v]
  show "\<exists>ds' socketGroup' plate' plateX' plateY'.
           dragCandidate st canvasRect e = Some (ds', socketGroup', plate', plateX', plateY')
           \<and> valid (validateSocketPosition socketGroup' plateX' plateY' plate' (socketGroups st))
           \<and> socketGroups (handleSocketMouseMove st canvasRect e)
               = map (\<lambda>sg. if SocketGroup.id sg = SocketGroup.id socketGroup'
                            then socketGroup'\<lparr>SocketGroup.positionX := plateX',
                                              SocketGroup.positionY := plateY'\<rparr>
                            else sg) (socketGroups st)"
    by blast
qed

text \<open>
  Claim C5 says that the validator, the renderer and the drag-offset capture all take the
  bottom edge of a group as \<open>positionY - 3.5\<close>. For a group anchored at (10, 10) on a
  plate drawn at scale 1, the renderer's function returns (6.5, 6.5), while the function of
  the page component that the pointer-down handlers call returns (6.5, 13.5): its second
  component is \<open>positionY + 3.5\<close>.
\<close>

theorem C5_page_position_bottom:
  "page_getSocketGroupPosition [''1'' \<mapsto> 1]
      \<lparr>SocketGroup.id = ''g1'', plateId = ''1'', count = 1, direction = horizontal,
       positionX = 10, positionY = 10\<rparr>
      \<lparr>Plate.id = ''1'', width = 100, height = 60\<rparr> = (6.5, 13.5)
   \<and> getSocketGroupPosition [''1'' \<mapsto> 1]
      \<lparr>SocketGroup.id = ''g1'', plateId = ''1'', count = 1, direction = horizontal,
       positionX = 10, positionY = 10\<rparr>
      \<lparr>Plate.id = ''1'', width = 100, height = 60\<rparr> = (6.5, 6.5)
   \<and> snd (page_getSocketGroupPosition [''1'' \<mapsto> 1]
      \<lparr>SocketGroup.id = ''g1'', plateId = ''1'', count = 1, direction = horizontal,
       positionX = 10, positionY = 10\<rparr>
      \<lparr>Plate.id = ''1'', width = 100, height = 60\<rparr>) \<noteq> (10 - 3.5) * 1"
  by (simp add: page_getSocketGroupPosition_def getSocketGroupPosition_def scaleOf_def
        ANCHOR_OFFSET_CM_def)

text \<open>
  A drag that starts and moves at the same pointer position maps back to the stored anchor
  (for a scale that is not 0): the 3.5 that \<open>page_getSocketGroupPosition\<close> adds to
  \<open>positionY\<close> is subtracted again by the move handler.
\<close>

lemma plateOffsets_dragState:
  "plateOffsets (st\<lparr>dragState := d\<rparr>) rect plate scale = plateOffsets st rect plate scale"
  by (simp add: plateOffsets_def isSinglePlateMode_def Let_def)

lemma drag_start_then_move:
  assumes g: "find (\<lambda>sg. Some (SocketGroup.id sg) = Some (SocketGroup.id socketGroup))
                (socketGroups st) = Some socketGroup"
    and p: "find (\<lambda>p. Plate.id p = plateId socketGroup) (plates st) = Some plate"
    and s: "scaleOf (plateScales st) (plateId socketGroup) \<noteq> 0"
  shows "\<exists>ds. dragCandidate (handleSocketMouseDown st (Some rect) e socketGroup) (Some rect) e
           = Some (ds, socketGroup, plate,
                   SocketGroup.positionX socketGroup, SocketGroup.positionY socketGroup)"
proof -
  have pid: "Plate.id plate = plateId socketGroup"
    using p by (auto simp: find_Some_iff)
  obtain ox oy where off: "plateOffsets st rect plate
      (scaleOf (plateScales st) (plateId socketGroup)) = (ox, oy)"
    by (cases "plateOffsets st rect plate (scaleOf (plateScales st) (plateId socketGroup))")
  let ?k = "scaleOf (plateScales st) (plateId socketGroup)"
  have x: "((SocketGroup.positionX socketGroup - 7 / 2) * ?k + ox - ox) / ?k + 7 / 2
      = SocketGroup.positionX socketGroup"
    using s by simp
  have y: "Plate.height plate
       - (Plate.height plate * ?k - (SocketGroup.positionY socketGroup + 7 / 2) * ?k + oy - oy) / ?k
       - 7 / 2 = SocketGroup.positionY socketGroup"
    using s by (simp add: field_simps)
  show ?thesis
    using g p s x y
    by (simp add: dragCandidate_def handleSocketMouseDown_def page_getSocketGroupPosition_def
          plateOffsets_dragState off pid Let_def ANCHOR_OFFSET_CM_def)
qed

section \<open>Concrete instances for scaling and dragging\<close>

text \<open>Claim C8 at the default plates: a wide canvas in multi-plate mode, a narrow one with plate 2 selected.\<close>

theorem C8_scale_bounds_witness:
  "finalScale (initialState\<lparr>canvasDimensions :=
      \<lparr>Dimensions.width = 1000, Dimensions.height = 600\<rparr>\<rparr>) \<le> 1
   \<and> 0.2 \<le> finalScale (initialState\<lparr>canvasDimensions :=
      \<lparr>Dimensions.width = 1000, Dimensions.height = 600\<rparr>\<rparr>)
   \<and> finalScale (initialState\<lparr>canvasDimensions :=
      \<lparr>Dimensions.width = 400, Dimensions.height = 700\<rparr>, selectedPlate := ''2''\<rparr>) \<le> 2
   \<and> 0.3 \<le> finalScale (initialState\<lparr>canvasDimensions :=
      \<lparr>Dimensions.width = 400, Dimensions.height = 700\<rparr>, selectedPlate := ''2''\<rparr>)"
  using
    C8_scale_bounds [of "initialState\<lparr>canvasDimensions :=
      \<lparr>Dimensions.width = 1000, Dimensions.height = 600\<rparr>\<rparr>"]
    C8_scale_bounds [of "initialState\<lparr>canvasDimensions :=
      \<lparr>Dimensions.width = 400, Dimensions.height = 700\<rparr>, selectedPlate := ''2''\<rparr>"]
  by (simp add: initialState_def DEFAULT_PLATES_def isSinglePlateMode_def)

text \<open>Claim C9 at plates 40 and 80 wide.\<close>

theorem C9_uniform_scale_witness:
  "renderedPlateWidth
     (plateScales (plateScalingEffect
        (initialState\<lparr>plates := [\<lparr>Plate.id = ''a'', width = 40, height = 40\<rparr>,
                                  \<lparr>Plate.id = ''b'', width = 80, height = 40\<rparr>],
                       canvasDimensions := \<lparr>Dimensions.width = 1000, Dimensions.height = 600\<rparr>\<rparr>)))
     \<lparr>Plate.id = ''a'', width = 40, height = 40\<rparr>
   = renderedPlateWidth
     (plateScales (plateScalingEffect
        (initialState\<lparr>plates := [\<lparr>Plate.id = ''a'', width = 40, height = 40\<rparr>,
                                  \<lparr>Plate.id = ''b'', width = 80, height = 40\<rparr>],
                       canvasDimensions := \<lparr>Dimensions.width = 1000, Dimensions.height = 600\<rparr>\<rparr>)))
     \<lparr>Plate.id = ''b'', width = 80, height = 40\<rparr> / 2"
proof -
  let ?a = "\<lparr>Plate.id = ''a'', width = 40, height = 40\<rparr>"
  let ?b = "\<lparr>Plate.id = ''b'', width = 80, height = 40\<rparr>"
  let ?st = "initialState\<lparr>plates := [?a, ?b],
               canvasDimensions := \<lparr>Dimensions.width = 1000, Dimensions.height = 600\<rparr>\<rparr>"
  have g1: "Dimensions.width (canvasDimensions ?st) \<noteq> 0" by simp
  have g2: "plates ?st \<noteq> []" by simp
  have ma: "?a \<in> set (plates ?st)" by simp
  have mb: "?b \<in> set (plates ?st)" by simp
  have w: "Plate.width ?a = 40 \<and> Plate.width ?b = 80" by simp
  from C9_uniform_scale [OF g1 g2 ma mb] w show ?thesis by blast
qed

text \<open>
  Claim C7 at a pointer position that maps to the candidate (3.5, 26.5), which is too close
  to the left edge.
\<close>

theorem C7_rejected_drag_keeps_position_witness:
  "socketGroups
     (handleSocketMouseMove
        (initialState\<lparr>
           plates := [\<lparr>Plate.id = ''1'', width = 100, height = 60\<rparr>],
           socketGroups := [\<lparr>SocketGroup.id = ''g1'', plateId = ''1'', count = 1,
                             direction = horizontal, positionX = 10, positionY = 10\<rparr>],
           dragState := Some \<lparr>isDragging = True, socketGroupId = Some ''g1'', offset = (0, 0),
                              livePosition = None, liveDistanceX = None, liveDistanceY = None\<rparr>,
           plateScales := [''1'' \<mapsto> 1]\<rparr>)
        (Some \<lparr>rectLeft = 0, rectTop = 0, rectWidth = 1000, rectHeight = 600\<rparr>)
        \<lparr>clientX = 40, clientY = 30\<rparr>)
   = [\<lparr>SocketGroup.id = ''g1'', plateId = ''1'', count = 1,
        direction = horizontal, positionX = 10, positionY = 10\<rparr>]"
proof -
  let ?g1 = "\<lparr>SocketGroup.id = ''g1'', plateId = ''1'', count = 1,
               direction = horizontal, positionX = 10, positionY = 10\<rparr>"
  let ?plate = "\<lparr>Plate.id = ''1'', width = 100, height = 60\<rparr>"
  let ?ds = "\<lparr>isDragging = True, socketGroupId = Some ''g1'', offset = (0, 0),
              livePosition = None, liveDistanceX = None, liveDistanceY = None\<rparr>"
  let ?st = "initialState\<lparr>plates := [?plate], socketGroups := [?g1],
               dragState := Some ?ds, plateScales := [''1'' \<mapsto> 1]\<rparr>"
  let ?rect = "Some \<lparr>rectLeft = 0, rectTop = 0, rectWidth = 1000, rectHeight = 600\<rparr>"
  let ?e = "\<lparr>clientX = 40, clientY = 30\<rparr>"
  have c: "dragCandidate ?st ?rect ?e = Some (?ds, ?g1, ?plate, 3.5, 26.5)"
    by (simp add: dragCandidate_def initialState_def plateOffsets_def isSinglePlateMode_def
          scaleOf_def ANCHOR_OFFSET_CM_def)
  have sg: "socketGroups ?st = [?g1]"
    by (simp add: initialState_def)
  have nv: "\<not> valid (validateSocketPosition ?g1 3.5 26.5 ?plate [?g1])"
    by (simp add: validateSocketPosition_def calculateSocketGroupDimensions_def cm_constants)
  have nv': "\<not> valid (validateSocketPosition ?g1 3.5 26.5 ?plate (socketGroups ?st))"
    unfolding sg by (rule nv)
  have "dragCandidate ?st ?rect ?e = Some (?ds, ?g1, ?plate, 3.5, 26.5)
      \<and> \<not> valid (validateSocketPosition ?g1 3.5 26.5 ?plate (socketGroups ?st))
    \<longrightarrow> socketGroups (handleSocketMouseMove ?st ?rect ?e) = socketGroups ?st"
    using C7_rejected_drag_keeps_position [of ?st ?rect ?e ?ds ?g1 ?plate "3.5" "26.5"]
    by (rule conjunct1)
  with c nv' have "socketGroups (handleSocketMouseMove ?st ?rect ?e) = socketGroups ?st"
    by blast
  then show ?thesis
    unfolding sg .
qed

section \<open>Properties of binary64 rounding\<close>

lemma two_powi_pos: "0 < (2::real) powi k"
  by (simp add: power_int_def)


lemma floor_log2_less:
  assumes "0 < x" and "x < 2 powi k"
  shows "\<lfloor>log 2 x\<rfloor> < k"
proof -
  define j where "j = \<lfloor>log 2 x\<rfloor>"
  have "2 powr real_of_int j \<le> x"
    using assms(1) floor_log_eq_powr_iff [of x 2 j] by (simp add: j_def)
  then have "(2::real) powi j \<le> x"
    using powr_real_of_int' [of 2 j] by simp
  with assms(2) have lt: "(2::real) powi j < 2 powi k" by simp
  show ?thesis
  proof (rule ccontr)
    assume "\<not> \<lfloor>log 2 x\<rfloor> < k"
    then have "k \<le> j" by (simp add: j_def)
    then have "(2::real) powi k \<le> 2 powi j"
      by (intro power_int_increasing) simp_all
    with lt show False by simp
  qed
qed



lemma roundEven_bound: "\<bar>of_int (roundEven y) - y\<bar> \<le> 1 / 2"
proof -
  have "of_int \<lfloor>y\<rfloor> \<le> y" and "y < of_int \<lfloor>y\<rfloor> + 1" by linarith+
  then show ?thesis
    by (auto simp: roundEven_def Let_def)
qed

lemma roundEven_nonneg: "0 \<le> y \<Longrightarrow> 0 \<le> roundEven y"
  by (auto simp: roundEven_def Let_def)

lemma roundEven_nonpos: "y \<le> 0 \<Longrightarrow> roundEven y \<le> 0"
proof -
  assume "y \<le> 0"
  then have "\<lfloor>y\<rfloor> \<le> 0" by (simp add: floor_le_zero)
  moreover have "y = 0 \<or> \<lfloor>y\<rfloor> \<le> -1"
  proof (cases "y = 0")
    case False
    with \<open>y \<le> 0\<close> have "y < 0" by simp
    then have "\<lfloor>y\<rfloor> \<le> - 1" by (subst floor_le_iff) simp
    then show ?thesis by simp
  qed simp
  ultimately show ?thesis
    by (auto simp: roundEven_def Let_def)
qed

lemma round64_not_NaN [simp]: "round64 x \<noteq> NaN"
  by (simp add: round64_def Let_def)

lemma round64_PosInf_pos: "round64 x = PosInf \<Longrightarrow> 0 < x"
  by (auto simp: round64_def Let_def split: if_splits)

lemma round64_NegInf_neg: "round64 x = NegInf \<Longrightarrow> x < 0"
  by (auto simp: round64_def Let_def split: if_splits)

lemma round64_Finite_sign:
  assumes "round64 x = Finite r"
  shows "(0 \<le> x \<longrightarrow> 0 \<le> r) \<and> (x \<le> 0 \<longrightarrow> r \<le> 0)"
proof (cases "x = 0")
  case True
  with assms show ?thesis by (simp add: round64_def)
next
  case False
  let ?ulp = "(2::real) powi (exponent64 x - 52)"
  have u: "0 < ?ulp" by (rule two_powi_pos)
  have r: "r = of_int (roundEven (x / ?ulp)) * ?ulp"
    using assms False by (auto simp: round64_def Let_def split: if_splits)
  show ?thesis
  proof (intro conjI impI)
    assume "0 \<le> x"
    then have "0 \<le> roundEven (x / ?ulp)" using u by (intro roundEven_nonneg) simp
    then show "0 \<le> r" using u by (simp add: r)
  next
    assume "x \<le> 0"
    then have "roundEven (x / ?ulp) \<le> 0"
      using u by (intro roundEven_nonpos) (simp add: divide_le_0_iff)
    then show "r \<le> 0" using u by (simp add: r mult_le_0_iff)
  qed
qed

lemma exponent64_le:
  assumes "x \<noteq> 0" and "\<bar>x\<bar> < 2 ^ 1024"
  shows "exponent64 x \<le> 1023"
proof -
  have "\<bar>x\<bar> < 2 powi 1024" using assms(2) by simp
  then have "\<lfloor>log 2 \<bar>x\<bar>\<rfloor> < 1024"
    using assms(1) by (intro floor_log2_less) simp_all
  then show ?thesis by (simp add: exponent64_def)
qed

lemma round64_finite:
  assumes "\<bar>x\<bar> < 2 ^ 1024 - 2 ^ 970"
  shows "\<exists>r. round64 x = Finite r"
proof (cases "x = 0")
  case True
  then show ?thesis by (simp add: round64_def)
next
  case False
  let ?ulp = "(2::real) powi (exponent64 x - 52)"
  let ?n = "roundEven (x / ?ulp)"
  have u: "0 < ?ulp" by (rule two_powi_pos)
  have "exponent64 x \<le> 1023"
    using False assms by (intro exponent64_le) simp_all
  then have "?ulp \<le> 2 powi 971"
    by (intro power_int_increasing) simp_all
  then have ulp: "?ulp \<le> 2 ^ 971" by simp
  have "\<bar>of_int ?n - x / ?ulp\<bar> \<le> 1 / 2" by (rule roundEven_bound)
  then have "\<bar>of_int ?n - x / ?ulp\<bar> * ?ulp \<le> 1 / 2 * ?ulp"
    using u by (intro mult_right_mono) simp_all
  moreover have "of_int ?n * ?ulp - x = (of_int ?n - x / ?ulp) * ?ulp"
    using u by (simp add: field_simps)
  then have "\<bar>of_int ?n * ?ulp - x\<bar> = \<bar>of_int ?n - x / ?ulp\<bar> * ?ulp"
    using u by (simp only: abs_mult abs_of_pos)
  ultimately have "\<bar>of_int ?n * ?ulp - x\<bar> \<le> ?ulp / 2"
    by simp
  then have "\<bar>of_int ?n * ?ulp\<bar> \<le> \<bar>x\<bar> + ?ulp / 2" by linarith
  also have "\<dots> < 2 ^ 1024 - 2 ^ 970 + 2 ^ 971 / 2"
    using assms ulp by linarith
  also have "\<dots> = 2 ^ 1024" by simp
  finally have "\<not> 2 ^ 1024 \<le> \<bar>of_int ?n * ?ulp\<bar>" by simp
  then show ?thesis
    using False by (simp add: round64_def Let_def)
qed



lemma round64_zero [simp]: "round64 0 = Finite 0"
  by (simp add: round64_def)


section \<open>Properties of the validator over binary64 numbers\<close>


lemma isFinite64_D: "isFinite64 v \<Longrightarrow> \<exists>x. v = Finite x \<and> \<bar>x\<bar> \<le> MAX_VALUE"
  by (cases v) simp_all

lemma MAX_VALUE_room: "MAX_VALUE + 7 / 2 < 2 ^ 1024 - 2 ^ 970"
  by (simp add: MAX_VALUE_def)

lemma fsub_anchor_Finite:
  assumes "isFinite64 v"
  shows "\<exists>l. fsub v ANCHOR_OFFSET_CM64 = Finite l"
proof -
  obtain x where v: "v = Finite x" and x: "\<bar>x\<bar> \<le> MAX_VALUE"
    using assms isFinite64_D by blast
  have "\<bar>x + - (7 / 2)\<bar> < 2 ^ 1024 - 2 ^ 970"
    using x MAX_VALUE_room by linarith
  then obtain l where "round64 (x + - (7 / 2)) = Finite l"
    using round64_finite by blast
  then show ?thesis
    by (simp add: v fsub_def ANCHOR_OFFSET_CM64_def)
qed

lemma fadd_Finite_not_NaN: "y \<noteq> NaN \<Longrightarrow> fadd (Finite a) y \<noteq> NaN"
  by (cases y) simp_all

lemma fadd_not_NaN_Finite: "x \<noteq> NaN \<Longrightarrow> fadd x (Finite b) \<noteq> NaN"
  by (cases x) simp_all

lemma fneg_not_NaN: "y \<noteq> NaN \<Longrightarrow> fneg y \<noteq> NaN"
  by (cases y) simp_all

lemma fsub_Finite_not_NaN: "y \<noteq> NaN \<Longrightarrow> fsub (Finite a) y \<noteq> NaN"
  by (simp add: fsub_def fadd_Finite_not_NaN fneg_not_NaN)

lemma fsub_not_NaN_Finite: "x \<noteq> NaN \<Longrightarrow> fsub x (Finite b) \<noteq> NaN"
  by (simp add: fsub_def fadd_not_NaN_Finite)

lemma not_flt_fle: "a \<noteq> NaN \<Longrightarrow> b \<noteq> NaN \<Longrightarrow> \<not> flt a b \<Longrightarrow> fle b a"
  by (cases a; cases b) simp_all

lemma fmul_self_nonneg:
  assumes "h \<noteq> NaN"
  shows "(\<exists>r. fmul h h = Finite r \<and> 0 \<le> r) \<or> fmul h h = PosInf"
proof (cases h)
  case (Finite a)
  show ?thesis
  proof (cases "round64 (a * a)")
    case (Finite r)
    then have "0 \<le> r" using round64_Finite_sign [of "a * a" r] by simp
    with Finite \<open>h = Finite a\<close> show ?thesis by simp
  next
    case PosInf
    with \<open>h = Finite a\<close> show ?thesis by simp
  next
    case NegInf
    then have "a * a < 0" by (rule round64_NegInf_neg)
    then show ?thesis by (simp add: mult_less_0_iff)
  next
    case NaN
    then show ?thesis by simp
  qed
qed (use assms in simp_all)

lemma fadd_nonneg_not_NaN:
  assumes "(\<exists>r. a = Finite r \<and> 0 \<le> r) \<or> a = PosInf"
    and "(\<exists>r. b = Finite r \<and> 0 \<le> r) \<or> b = PosInf"
  shows "(\<exists>r. fadd a b = Finite r \<and> 0 \<le> r) \<or> fadd a b = PosInf"
proof -
  have fin: "(\<exists>r. round64 (x + y) = Finite r \<and> 0 \<le> r) \<or> round64 (x + y) = PosInf"
    if "0 \<le> x" "0 \<le> y" for x y :: real
  proof (cases "round64 (x + y)")
    case (Finite r)
    then show ?thesis using round64_Finite_sign [of "x + y" r] that by simp
  next
    case NegInf
    then have "x + y < 0" by (rule round64_NegInf_neg)
    with that show ?thesis by simp
  qed simp_all
  show ?thesis
    using assms fin by (elim disjE exE conjE) simp_all
qed

lemma fsqrt_nonneg_not_NaN:
  assumes "(\<exists>r. a = Finite r \<and> 0 \<le> r) \<or> a = PosInf"
  shows "fsqrt a \<noteq> NaN"
  using assms by (elim disjE exE conjE) simp_all

lemma rectDistance64_not_NaN:
  assumes "r1Left \<noteq> NaN" "r1Right \<noteq> NaN" "r1Bottom \<noteq> NaN" "r1Top \<noteq> NaN"
    and "\<exists>a. r2Left = Finite a" "r2Right \<noteq> NaN" "\<exists>a. r2Bottom = Finite a" "r2Top \<noteq> NaN"
    and "\<exists>a. r1Left = Finite a" "\<exists>a. r1Bottom = Finite a"
  shows "rectDistance64 r1Left r1Right r1Bottom r1Top r2Left r2Right r2Bottom r2Top \<noteq> NaN"
proof -
  let ?h = "if flt r1Right r2Left then fsub r2Left r1Right
            else if flt r2Right r1Left then fsub r1Left r2Right else Finite 0"
  let ?v = "if fgt r1Bottom r2Top then fsub r1Bottom r2Top
            else if fgt r2Bottom r1Top then fsub r2Bottom r1Top else Finite 0"
  have h: "?h \<noteq> NaN"
    using assms by (auto simp: fsub_Finite_not_NaN)
  have v: "?v \<noteq> NaN"
    using assms by (auto simp: fsub_Finite_not_NaN)
  have "fsqrt (fadd (fmul ?h ?h) (fmul ?v ?v)) \<noteq> NaN"
    by (intro fsqrt_nonneg_not_NaN fadd_nonneg_not_NaN fmul_self_nonneg h v)
  then show ?thesis
    by (simp add: rectDistance64_def Let_def)
qed

lemma fadd_round64_not_NaN:
  assumes "\<not> (round64 a = PosInf \<and> round64 b = NegInf)"
    and "\<not> (round64 a = NegInf \<and> round64 b = PosInf)"
  shows "fadd (round64 a) (round64 b) \<noteq> NaN"
  using assms by (cases "round64 a"; cases "round64 b") simp_all

lemma totalDimension64_not_NaN:
  assumes "isFinite64 c"
  shows "fadd (fmul c SOCKET_SIZE64) (fmul (fsub c (Finite 1)) SOCKET_GAP64) \<noteq> NaN"
proof -
  obtain x where c: "c = Finite x" and x: "\<bar>x\<bar> \<le> MAX_VALUE"
    using assms isFinite64_D by blast
  have "\<bar>x - 1\<bar> < 2 ^ 1024 - 2 ^ 970"
    using x MAX_VALUE_room by linarith
  then obtain d where d: "round64 (x - 1) = Finite d"
    using round64_finite by blast
  have "\<bar>1 / 5 :: real\<bar> < 2 ^ 1024 - 2 ^ 970" by simp
  then obtain g where g: "round64 (1 / 5) = Finite g"
    using round64_finite by blast
  have g0: "0 \<le> g"
    using round64_Finite_sign [OF g] by simp
  have a: "\<not> (round64 (x * 7) = PosInf \<and> round64 (d * g) = NegInf)"
  proof
    assume h: "round64 (x * 7) = PosInf \<and> round64 (d * g) = NegInf"
    then have "d * g < 0" using round64_NegInf_neg by blast
    with g0 have "d < 0" by (simp add: mult_less_0_iff)
    then have "x - 1 < 0" using round64_Finite_sign [OF d] by auto
    moreover have "0 < x * 7" using h round64_PosInf_pos by blast
    ultimately have "\<bar>x * 7\<bar> < 2 ^ 1024 - 2 ^ 970" by simp
    then obtain r where "round64 (x * 7) = Finite r"
      using round64_finite by blast
    with h show False by simp
  qed
  have b: "\<not> (round64 (x * 7) = NegInf \<and> round64 (d * g) = PosInf)"
  proof
    assume h: "round64 (x * 7) = NegInf \<and> round64 (d * g) = PosInf"
    then have "0 < d * g" using round64_PosInf_pos by blast
    with g0 have "0 < d" by (simp add: zero_less_mult_iff)
    then have "0 < x - 1" using round64_Finite_sign [OF d] by auto
    moreover have "x * 7 < 0" using h round64_NegInf_neg by blast
    ultimately show False by simp
  qed
  show ?thesis
    using fadd_round64_not_NaN [OF a b]
    by (simp add: c fsub_def SOCKET_SIZE64_def SOCKET_GAP64_def d g)
qed

lemma dims64_not_NaN:
  assumes "isFinite64 c"
  shows "Dimensions64.width64 (calculateSocketGroupDimensions64 c dir) \<noteq> NaN
       \<and> Dimensions64.height64 (calculateSocketGroupDimensions64 c dir) \<noteq> NaN"
  using totalDimension64_not_NaN [OF assms]
  by (simp add: calculateSocketGroupDimensions64_def Let_def SOCKET_SIZE64_def)

lemma totalDistance64_not_NaN:
  assumes "isFinite64 posX" and "isFinite64 posY"
    and "groupWidth \<noteq> NaN" and "groupHeight \<noteq> NaN"
    and "isFinite64 (count64 other)"
    and "isFinite64 (SocketGroup64.positionX64 other)"
    and "isFinite64 (SocketGroup64.positionY64 other)"
  shows "totalDistance64 posX posY groupWidth groupHeight other \<noteq> NaN"
proof -
  obtain l where l: "fsub posX ANCHOR_OFFSET_CM64 = Finite l"
    using fsub_anchor_Finite [OF assms(1)] by blast
  obtain b where b: "fsub posY ANCHOR_OFFSET_CM64 = Finite b"
    using fsub_anchor_Finite [OF assms(2)] by blast
  obtain l2 where l2: "fsub (SocketGroup64.positionX64 other) ANCHOR_OFFSET_CM64 = Finite l2"
    using fsub_anchor_Finite [OF assms(6)] by blast
  obtain b2 where b2: "fsub (SocketGroup64.positionY64 other) ANCHOR_OFFSET_CM64 = Finite b2"
    using fsub_anchor_Finite [OF assms(7)] by blast
  note od = dims64_not_NaN [OF assms(5), of "direction64 other"]
  show ?thesis
    unfolding totalDistance64_def Let_def l b l2 b2
    by (intro rectDistance64_not_NaN fadd_Finite_not_NaN assms(3,4) od [THEN conjunct1]
          od [THEN conjunct2]) simp_all
qed

lemma checkOtherGroups64_position:
  "positionX64 (checkOtherGroups64 sg x y w h gs) = x
   \<and> positionY64 (checkOtherGroups64 sg x y w h gs) = y"
  by (induction gs) simp_all

lemma checkOtherGroups64_valid_iff:
  "valid64 (checkOtherGroups64 sg x y w h gs) \<longleftrightarrow>
     (\<forall>other\<in>set gs. SocketGroup64.id64 other \<noteq> SocketGroup64.id64 sg
          \<and> plateId64 other = plateId64 sg
        \<longrightarrow> \<not> flt (totalDistance64 x y w h other) MIN_GROUP_DISTANCE64)"
  by (induction gs) auto


lemma validate64_edges_pass:
  assumes "\<not> flt (fsub x ANCHOR_OFFSET_CM64) MIN_EDGE_DISTANCE64"
    and "\<not> flt (fsub y ANCHOR_OFFSET_CM64) MIN_EDGE_DISTANCE64"
    and "\<not> fgt (fadd (fsub x ANCHOR_OFFSET_CM64)
                  (Dimensions64.width64
                     (calculateSocketGroupDimensions64 (count64 sg) (direction64 sg))))
              (fsub (Plate64.width64 plate) MIN_EDGE_DISTANCE64)"
    and "\<not> fgt (fadd (fsub y ANCHOR_OFFSET_CM64)
                  (Dimensions64.height64
                     (calculateSocketGroupDimensions64 (count64 sg) (direction64 sg))))
              (fsub (Plate64.height64 plate) MIN_EDGE_DISTANCE64)"
  shows "validateSocketPosition64 sg x y plate gs
     = checkOtherGroups64 sg x y
         (Dimensions64.width64 (calculateSocketGroupDimensions64 (count64 sg) (direction64 sg)))
         (Dimensions64.height64 (calculateSocketGroupDimensions64 (count64 sg) (direction64 sg)))
         gs"
  using assms by (simp add: validateSocketPosition64_def Let_def)

lemma validate64_valid_edges:
  assumes "valid64 (validateSocketPosition64 sg x y plate gs)"
  shows "\<not> flt (fsub x ANCHOR_OFFSET_CM64) MIN_EDGE_DISTANCE64
    \<and> \<not> flt (fsub y ANCHOR_OFFSET_CM64) MIN_EDGE_DISTANCE64
    \<and> \<not> fgt (fadd (fsub x ANCHOR_OFFSET_CM64)
                  (Dimensions64.width64
                     (calculateSocketGroupDimensions64 (count64 sg) (direction64 sg))))
              (fsub (Plate64.width64 plate) MIN_EDGE_DISTANCE64)
    \<and> \<not> fgt (fadd (fsub y ANCHOR_OFFSET_CM64)
                  (Dimensions64.height64
                     (calculateSocketGroupDimensions64 (count64 sg) (direction64 sg))))
              (fsub (Plate64.height64 plate) MIN_EDGE_DISTANCE64)"
  using assms by (simp add: validateSocketPosition64_def Let_def split: if_splits)

lemma validate64_position:
  "positionX64 (validateSocketPosition64 sg x y plate gs) = x
   \<and> positionY64 (validateSocketPosition64 sg x y plate gs) = y"
  by (simp add: validateSocketPosition64_def Let_def checkOtherGroups64_position)

lemma flt_NaN_right [simp]: "flt x NaN = False"
  by (cases x) simp_all

lemma flt_NaN_left [simp]: "flt NaN y = False"
  by simp






text \<open>
  Claim C10 says that a result with \<open>valid = True\<close> means that the box keeps 3 cm from
  the edges and 4 cm from the other groups. Every guard of the validator is a comparison
  that is false on NaN, so the candidate (NaN, NaN) falls through all of them: the result is
  valid, with the position NaN, although \<open>boxLeft \<ge> 3\<close> does not hold.
\<close>

theorem C10_NaN_candidate_accepted:
  "validateSocketPosition64
      \<lparr>SocketGroup64.id64 = ''g1'', plateId64 = ''p1'', count64 = Finite 1, direction64 = vertical,
       positionX64 = Finite 50, positionY64 = Finite 30\<rparr>
      NaN NaN
      \<lparr>Plate64.id64 = ''p1'', width64 = Finite 100, height64 = Finite 60\<rparr> []
    = \<lparr>valid64 = True, error64 = None, positionX64 = NaN, positionY64 = NaN\<rparr>
   \<and> \<not> fle (Finite 3) (fsub NaN ANCHOR_OFFSET_CM64)"
  by (simp add: validateSocketPosition64_def Let_def fsub_def fgt_def ANCHOR_OFFSET_CM64_def)

text \<open>
  For finite numbers the acceptance is sound: when the candidate, the count of the group
  and the count and position of every other group on the plate are finite and the plate
  dimensions are not NaN, a valid result means that the computed box keeps 3 cm from the
  four edges and that every computed distance to another group on the plate is at least 4.
\<close>

lemma validate64_accept_sound_finite:
  assumes "valid64 (validateSocketPosition64 socketGroup posX posY plate allSocketGroups)"
    and "isFinite64 posX" and "isFinite64 posY"
    and "isFinite64 (count64 socketGroup)"
    and "Plate64.width64 plate \<noteq> NaN" and "Plate64.height64 plate \<noteq> NaN"
    and "\<forall>other\<in>set allSocketGroups.
           plateId64 other = plateId64 socketGroup
           \<and> SocketGroup64.id64 other \<noteq> SocketGroup64.id64 socketGroup
           \<longrightarrow> isFinite64 (count64 other)
               \<and> isFinite64 (SocketGroup64.positionX64 other)
               \<and> isFinite64 (SocketGroup64.positionY64 other)"
  shows "(let dims = calculateSocketGroupDimensions64 (count64 socketGroup)
                       (direction64 socketGroup);
              boxLeft = fsub posX (Finite 3.5);
              boxBottom = fsub posY (Finite 3.5);
              boxRight = fadd boxLeft (Dimensions64.width64 dims);
              boxTop = fadd boxBottom (Dimensions64.height64 dims)
          in fle (Finite 3) boxLeft \<and> fle (Finite 3) boxBottom
             \<and> fle boxRight (fsub (Plate64.width64 plate) (Finite 3))
             \<and> fle boxTop (fsub (Plate64.height64 plate) (Finite 3))
             \<and> (\<forall>other\<in>set allSocketGroups.
                   plateId64 other = plateId64 socketGroup
                   \<and> SocketGroup64.id64 other \<noteq> SocketGroup64.id64 socketGroup
                   \<longrightarrow> fle (Finite 4)
                         (totalDistance64 posX posY (Dimensions64.width64 dims)
                            (Dimensions64.height64 dims) other)))
       \<and> positionX64 (validateSocketPosition64 socketGroup posX posY plate allSocketGroups) = posX
       \<and> positionY64 (validateSocketPosition64 socketGroup posX posY plate allSocketGroups) = posY"
proof -
  let ?dims = "calculateSocketGroupDimensions64 (count64 socketGroup) (direction64 socketGroup)"
  let ?w = "Dimensions64.width64 ?dims" and ?h = "Dimensions64.height64 ?dims"
  let ?left = "fsub posX ANCHOR_OFFSET_CM64" and ?bottom = "fsub posY ANCHOR_OFFSET_CM64"
  note guards = validate64_valid_edges [OF assms(1)]
  obtain l where l: "?left = Finite l"
    using fsub_anchor_Finite [OF assms(2)] by blast
  obtain b where b: "?bottom = Finite b"
    using fsub_anchor_Finite [OF assms(3)] by blast
  note dn = dims64_not_NaN [OF assms(4), of "direction64 socketGroup"]
  have right: "fadd ?left ?w \<noteq> NaN"
    unfolding l using dn by (intro fadd_Finite_not_NaN) simp
  have top: "fadd ?bottom ?h \<noteq> NaN"
    unfolding b using dn by (intro fadd_Finite_not_NaN) simp
  have wl: "fsub (Plate64.width64 plate) MIN_EDGE_DISTANCE64 \<noteq> NaN"
    unfolding MIN_EDGE_DISTANCE64_def using assms(5) by (rule fsub_not_NaN_Finite)
  have hl: "fsub (Plate64.height64 plate) MIN_EDGE_DISTANCE64 \<noteq> NaN"
    unfolding MIN_EDGE_DISTANCE64_def using assms(6) by (rule fsub_not_NaN_Finite)
  have e1: "fle MIN_EDGE_DISTANCE64 ?left"
    using guards by (intro not_flt_fle) (simp_all add: l MIN_EDGE_DISTANCE64_def)
  have e2: "fle MIN_EDGE_DISTANCE64 ?bottom"
    using guards by (intro not_flt_fle) (simp_all add: b MIN_EDGE_DISTANCE64_def)
  have e3: "fle (fadd ?left ?w) (fsub (Plate64.width64 plate) MIN_EDGE_DISTANCE64)"
    using guards right wl by (intro not_flt_fle) (simp_all add: fgt_def)
  have e4: "fle (fadd ?bottom ?h) (fsub (Plate64.height64 plate) MIN_EDGE_DISTANCE64)"
    using guards top hl by (intro not_flt_fle) (simp_all add: fgt_def)
  have "validateSocketPosition64 socketGroup posX posY plate allSocketGroups
     = checkOtherGroups64 socketGroup posX posY ?w ?h allSocketGroups"
    using guards by (intro validate64_edges_pass) simp_all
  with assms(1) have "valid64 (checkOtherGroups64 socketGroup posX posY ?w ?h allSocketGroups)"
    by simp
  then have nolt: "\<forall>other\<in>set allSocketGroups.
       SocketGroup64.id64 other \<noteq> SocketGroup64.id64 socketGroup
       \<and> plateId64 other = plateId64 socketGroup
       \<longrightarrow> \<not> flt (totalDistance64 posX posY ?w ?h other) MIN_GROUP_DISTANCE64"
    by (simp add: checkOtherGroups64_valid_iff)
  have sib: "\<forall>other\<in>set allSocketGroups.
       plateId64 other = plateId64 socketGroup
       \<and> SocketGroup64.id64 other \<noteq> SocketGroup64.id64 socketGroup
       \<longrightarrow> fle MIN_GROUP_DISTANCE64 (totalDistance64 posX posY ?w ?h other)"
  proof (intro ballI impI)
    fix other
    assume mem: "other \<in> set allSocketGroups"
      and rel: "plateId64 other = plateId64 socketGroup
        \<and> SocketGroup64.id64 other \<noteq> SocketGroup64.id64 socketGroup"
    have fin: "isFinite64 (count64 other) \<and> isFinite64 (SocketGroup64.positionX64 other)
        \<and> isFinite64 (SocketGroup64.positionY64 other)"
      using assms(7) mem rel by blast
    have "totalDistance64 posX posY ?w ?h other \<noteq> NaN"
      using assms(2,3) dn fin by (intro totalDistance64_not_NaN) simp_all
    moreover have "\<not> flt (totalDistance64 posX posY ?w ?h other) MIN_GROUP_DISTANCE64"
      using nolt mem rel by blast
    ultimately show "fle MIN_GROUP_DISTANCE64 (totalDistance64 posX posY ?w ?h other)"
      by (intro not_flt_fle) (simp_all add: MIN_GROUP_DISTANCE64_def)
  qed
  show ?thesis
    using e1 e2 e3 e4 sib validate64_position [of socketGroup posX posY plate allSocketGroups]
    unfolding Let_def MIN_EDGE_DISTANCE64_def MIN_GROUP_DISTANCE64_def ANCHOR_OFFSET_CM64_def
    by blast
qed

end
